theory Spec2Isabelle
  imports Complex_Main
begin

section \<open>Vectors, rotation matrices and transforms\<close>

text \<open>
  The skeleton code works on the game's \<^verbatim>\<open>NiPoint3\<close>, \<^verbatim>\<open>NiMatrix43\<close> and
  \<^verbatim>\<open>NiTransform\<close> values. Single-precision numbers are read as real numbers
  throughout: the development follows the arithmetic the code writes down, without
  rounding. Where the code tests for NaN or an infinity, the value that may be
  non-finite is given a type of its own (see \<open>fl\<close> below).
\<close>

datatype NiPoint3 = NiPoint3 (vx: real) (vy: real) (vz: real)

datatype NiMatrix43 = NiMatrix43 (row0: NiPoint3) (row1: NiPoint3) (row2: NiPoint3)

record NiTransform =
  rot :: NiMatrix43
  pos :: NiPoint3
  scale :: real

text \<open>
  Modelled from the spec: the operators of \<^verbatim>\<open>NiPoint3\<close> and \<^verbatim>\<open>NiMatrix43\<close>
  belong to the game SDK headers, which are not among the sources. They are the
  usual componentwise sum and difference, the product with a scalar, and the
  product of a matrix with a column vector, as in the propagation rule
  \<^verbatim>\<open>world.pos = parent.world.pos + parent.world.rot * (local.pos * parent.world.scale)\<close>.
\<close>

definition vadd :: "NiPoint3 \<Rightarrow> NiPoint3 \<Rightarrow> NiPoint3" where
  "vadd a b = NiPoint3 (vx a + vx b) (vy a + vy b) (vz a + vz b)"

definition vsub :: "NiPoint3 \<Rightarrow> NiPoint3 \<Rightarrow> NiPoint3" where
  "vsub a b = NiPoint3 (vx a - vx b) (vy a - vy b) (vz a - vz b)"

definition vscale :: "NiPoint3 \<Rightarrow> real \<Rightarrow> NiPoint3" where
  "vscale a k = NiPoint3 (vx a * k) (vy a * k) (vz a * k)"

definition vdiv :: "NiPoint3 \<Rightarrow> real \<Rightarrow> NiPoint3" where
  "vdiv a k = NiPoint3 (vx a / k) (vy a / k) (vz a / k)"

definition vec3Dot :: "NiPoint3 \<Rightarrow> NiPoint3 \<Rightarrow> real" where
  "vec3Dot a b = vx a * vx b + vy a * vy b + vz a * vz b"

definition mat_vec :: "NiMatrix43 \<Rightarrow> NiPoint3 \<Rightarrow> NiPoint3" where
  "mat_vec m v = NiPoint3 (vec3Dot (row0 m) v) (vec3Dot (row1 m) v) (vec3Dot (row2 m) v)"

definition Transpose :: "NiMatrix43 \<Rightarrow> NiMatrix43" where
  "Transpose m =
     NiMatrix43 (NiPoint3 (vx (row0 m)) (vx (row1 m)) (vx (row2 m)))
                (NiPoint3 (vy (row0 m)) (vy (row1 m)) (vy (row2 m)))
                (NiPoint3 (vz (row0 m)) (vz (row1 m)) (vz (row2 m)))"

definition mat_mul :: "NiMatrix43 \<Rightarrow> NiMatrix43 \<Rightarrow> NiMatrix43" where
  "mat_mul a b =
     (let t = Transpose b
      in NiMatrix43 (mat_vec t (row0 a)) (mat_vec t (row1 a)) (mat_vec t (row2 a)))"

definition mat_id :: NiMatrix43 where
  "mat_id = NiMatrix43 (NiPoint3 1 0 0) (NiPoint3 0 1 0) (NiPoint3 0 0 1)"

text \<open>
  Modelled from the spec: \<^verbatim>\<open>Matrix44::makeTransformMatrix\<close> and
  \<^verbatim>\<open>Matrix44::multiply43Left\<close> are declared in \<^verbatim>\<open>common/Matrix.h\<close>, which is not
  among the sources. The code builds \<^verbatim>\<open>rot\<close> from a local rotation with a zero
  translation and calls \<^verbatim>\<open>rot.multiply43Left(parent.world.rot)\<close> for the rule
  \<^verbatim>\<open>World Rotation = Parent world rotation * Local Rotation\<close> (the comment in
  \<^verbatim>\<open>setArms\<close> and section 4.1 of the spec): the argument is the left factor.
\<close>

definition multiply43Left :: "NiMatrix43 \<Rightarrow> NiMatrix43 \<Rightarrow> NiMatrix43" where
  "multiply43Left this m = mat_mul m this"

text \<open>
  The other helpers of \<^verbatim>\<open>common/Matrix.h\<close> and \<^verbatim>\<open>common/CommonUtils.h\<close> that the
  solvers call are taken as they come: the matrix \<^verbatim>\<open>setEulerAngles\<close> builds, the
  rotation \<^verbatim>\<open>rotateVectorVec(toVec, fromVec)\<close> builds, \<^verbatim>\<open>getRotationAxisAngle\<close>,
  \<^verbatim>\<open>rotateXY\<close> and \<^verbatim>\<open>vec3Det\<close>.
\<close>

record MatrixLib =
  setEulerAngles :: "real \<Rightarrow> real \<Rightarrow> real \<Rightarrow> NiMatrix43"
  rotateVectorVec :: "NiPoint3 \<Rightarrow> NiPoint3 \<Rightarrow> NiMatrix43"
  getRotationAxisAngle :: "NiPoint3 \<Rightarrow> real \<Rightarrow> NiMatrix43"
  rotateXY :: "NiPoint3 \<Rightarrow> real \<Rightarrow> NiPoint3"
  vec3Det :: "NiPoint3 \<Rightarrow> NiPoint3 \<Rightarrow> NiPoint3 \<Rightarrow> real"

section \<open>The flattened bone tree\<close>

record NiAVObject =
  m_localTransform :: NiTransform
  m_worldTransform :: NiTransform

record BoneTransform =
  local :: NiTransform
  world :: NiTransform
  parPos :: int
  refNode :: "NiAVObject option"

datatype error = OutOfRange | KeyNotFound | NullPointer | NonFinite

text \<open>
  \<^verbatim>\<open>rt->transforms[i]\<close> for a signed index: reading outside the array is undefined
  in the source and an error here.
\<close>

definition transforms_at :: "BoneTransform list \<Rightarrow> int \<Rightarrow> error + BoneTransform" where
  "transforms_at ts i = (if 0 \<le> i \<and> i < int (length ts) then Inr (ts ! nat i) else Inl OutOfRange)"

text \<open>
  The tail of the loop body of \<^verbatim>\<open>setHandPose\<close>: a bone with a scene node takes the
  node's world transform, any other bone is placed from its parent entry.
\<close>

definition propagate_bone :: "BoneTransform list \<Rightarrow> nat \<Rightarrow> error + BoneTransform list" where
  "propagate_bone ts i =
     (case refNode (ts ! i) of
        Some n \<Rightarrow> Inr (ts[i := (ts ! i)\<lparr>world := m_worldTransform n\<rparr>])
      | None \<Rightarrow>
          (case transforms_at ts (parPos (ts ! i)) of
             Inl e \<Rightarrow> Inl e
           | Inr par \<Rightarrow>
               (let p = pos (local (ts ! i));
                    p = mat_vec (rot (world par)) (vscale p (scale (world par)));
                    w1 = (world (ts ! i))\<lparr>pos := vadd (pos (world par)) p\<rparr>;
                    w2 = w1\<lparr>rot := multiply43Left (rot (local (ts ! i))) (rot (world par))\<rparr>
                in Inr (ts[i := (ts ! i)\<lparr>world := w2\<rparr>]))))"

text \<open>
  The head of the loop body: for a finger bone the blended hand pose gives the local
  rotation and the open pose gives the local position, and the scene node, when
  there is one, receives the new local transform. The argument \<open>finger i\<close> is that
  pair for the bone at index \<open>i\<close>, and \<open>None\<close> for a bone that is no finger bone.
\<close>

definition set_finger_local ::
  "(nat \<Rightarrow> (NiMatrix43 \<times> NiPoint3) option) \<Rightarrow> BoneTransform list \<Rightarrow> nat \<Rightarrow> BoneTransform list" where
  "set_finger_local finger ts i =
     (case finger i of
        None \<Rightarrow> ts
      | Some (r, p) \<Rightarrow>
          (let l = (local (ts ! i))\<lparr>rot := r, pos := p\<rparr>;
               b = (ts ! i)\<lparr>local := l\<rparr>
           in ts[i := b\<lparr>refNode := map_option (\<lambda>n. n\<lparr>m_localTransform := l\<rparr>) (refNode b)\<rparr>]))"

definition setHandPose_body ::
  "(nat \<Rightarrow> (NiMatrix43 \<times> NiPoint3) option) \<Rightarrow> BoneTransform list \<Rightarrow> nat \<Rightarrow> error + BoneTransform list" where
  "setHandPose_body finger ts i = propagate_bone (set_finger_local finger ts i) i"

fun setHandPose_loop ::
  "(nat \<Rightarrow> (NiMatrix43 \<times> NiPoint3) option) \<Rightarrow> nat list \<Rightarrow> BoneTransform list \<Rightarrow> error + BoneTransform list" where
  "setHandPose_loop finger [] ts = Inr ts"
| "setHandPose_loop finger (i # is) ts =
     (case setHandPose_body finger ts i of
        Inl e \<Rightarrow> Inl e
      | Inr ts' \<Rightarrow> setHandPose_loop finger is ts')"

definition setHandPose ::
  "(nat \<Rightarrow> (NiMatrix43 \<times> NiPoint3) option) \<Rightarrow> BoneTransform list \<Rightarrow> error + BoneTransform list" where
  "setHandPose finger ts = setHandPose_loop finger [0..<length ts] ts"

text \<open>
  \<^verbatim>\<open>rotateLeg\<close>: the local rotation of one entry is turned by \<open>r\<close> (the matrix
  \<^verbatim>\<open>setEulerAngles(degreesToRads(angle), 0, 0)\<close> builds) and the entry is placed again
  from its parent entry. \<^verbatim>\<open>pos\<close> is unsigned and \<^verbatim>\<open>parPos\<close> is signed.
\<close>

definition rotateLeg :: "BoneTransform list \<Rightarrow> nat \<Rightarrow> NiMatrix43 \<Rightarrow> error + BoneTransform list" where
  "rotateLeg ts i r =
     (if \<not> i < length ts then Inl OutOfRange
      else
        (let l = (local (ts ! i))\<lparr>rot := multiply43Left r (rot (local (ts ! i)))\<rparr>;
             ts1 = ts[i := (ts ! i)\<lparr>local := l\<rparr>]
         in case transforms_at ts1 (parPos (ts ! i)) of
              Inl e \<Rightarrow> Inl e
            | Inr par \<Rightarrow>
                (let p = mat_vec (rot (world par)) (vscale (pos l) (scale (world par)));
                     w1 = (world (ts ! i))\<lparr>pos := vadd (pos (world par)) p\<rparr>;
                     w2 = w1\<lparr>rot := multiply43Left (rot l) (rot (world par))\<rparr>
                 in Inr (ts1[i := (ts1 ! i)\<lparr>world := w2\<rparr>]))))"

text \<open>
  The propagation rule of the spec, for the entry at \<open>i\<close> of an array \<open>ts\<close> with
  its parent entry at \<open>p\<close>.
\<close>

definition propagated :: "BoneTransform list \<Rightarrow> nat \<Rightarrow> nat \<Rightarrow> bool" where
  "propagated ts i p \<longleftrightarrow>
     pos (world (ts ! i)) =
       vadd (pos (world (ts ! p)))
            (mat_vec (rot (world (ts ! p))) (vscale (pos (local (ts ! i))) (scale (world (ts ! p)))))
     \<and> rot (world (ts ! i)) = mat_mul (rot (world (ts ! p))) (rot (local (ts ! i)))"

text \<open>
  The invariant of the flattened array (section 3 of the spec): the parent of every
  bone that has no scene node of its own lies before it.
\<close>

definition topological :: "BoneTransform list \<Rightarrow> bool" where
  "topological ts \<longleftrightarrow>
     (\<forall>i < length ts. refNode (ts ! i) = None \<longrightarrow> 0 \<le> parPos (ts ! i) \<and> parPos (ts ! i) < int i)"

section \<open>Scalar and vector helpers\<close>

text \<open>
  \<^verbatim>\<open>std::clamp(v, lo, hi)\<close> of the C++ library: \<^verbatim>\<open>(v < lo) ? lo : (hi < v) ? hi : v\<close>.
\<close>

definition clamp :: "real \<Rightarrow> real \<Rightarrow> real \<Rightarrow> real" where
  "clamp v lo hi = (if v < lo then lo else if hi < v then hi else v)"

text \<open>
  Modelled from the spec: \<^verbatim>\<open>vec3Len\<close>, \<^verbatim>\<open>vec3Norm\<close> and \<^verbatim>\<open>degreesToRads\<close> are
  declared in \<^verbatim>\<open>common/CommonUtils.h\<close>, which is not among the sources. They are the
  Euclidean length, the vector scaled to unit length, and the conversion of an angle
  in degrees to radians. What \<^verbatim>\<open>vec3Norm\<close> returns for the zero vector is not given;
  here it is the zero vector, and no theorem below depends on it.
\<close>

definition vec3Len :: "NiPoint3 \<Rightarrow> real" where
  "vec3Len v = sqrt (vx v * vx v + vy v * vy v + vz v * vz v)"

definition vec3Norm :: "NiPoint3 \<Rightarrow> NiPoint3" where
  "vec3Norm v = vdiv v (vec3Len v)"

definition degreesToRads :: "real \<Rightarrow> real" where
  "degreesToRads d = d * pi / 180"

definition set_z :: "NiPoint3 \<Rightarrow> real \<Rightarrow> NiPoint3" where
  "set_z v k = NiPoint3 (vx v) (vy v) k"

section \<open>The walk cycle\<close>

text \<open>
  The members and nodes \<^verbatim>\<open>walk\<close> reads and writes. \<open>spineAngle\<close> is the
  function-local static, \<open>spineLocalRot\<close> is \<^verbatim>\<open>_spine->m_localTransform.rot\<close>, and
  \<open>lFootWorldPos\<close>, \<open>rFootWorldPos\<close> are the world positions of the two foot nodes.
\<close>

record WalkState =
  walkingState :: int
  prevSpeed :: real
  footStepping :: int
  stepDir :: NiPoint3
  stepTimeinStep :: real
  delayFrame :: int
  currentStepTime :: real
  leftFootTarget :: NiPoint3
  leftFootStart :: NiPoint3
  leftFootPos :: NiPoint3
  rightFootTarget :: NiPoint3
  rightFootStart :: NiPoint3
  rightFootPos :: NiPoint3
  spineAngle :: real
  spineLocalRot :: NiMatrix43
  lFootWorldPos :: NiPoint3
  rFootWorldPos :: NiPoint3

text \<open>
  What a frame supplies: whether the six leg nodes were found, the power-armor flag,
  the camera position of the last and of this frame, the frame time, the height of
  the root node, \<^verbatim>\<open>isJumpingOrInAir()\<close> and the value \<^verbatim>\<open>std::rand()\<close> returns.
\<close>

record WalkInput =
  legNodesFound :: bool
  inPowerArmor :: bool
  lastPosition :: NiPoint3
  curentPosition :: NiPoint3
  frameTime :: real
  rootWorldZ :: real
  jumpingOrInAir :: bool
  randValue :: int

text \<open>Lines 507 to 521: the direction of travel, the smoothed speed and the step time.\<close>

definition walk_rawDir :: "WalkInput \<Rightarrow> NiPoint3" where
  "walk_rawDir inp = vsub (set_z (curentPosition inp) 0) (set_z (lastPosition inp) 0)"

definition walk_curSpeed :: "WalkInput \<Rightarrow> WalkState \<Rightarrow> real" where
  "walk_curSpeed inp s =
     (let curSpeed = clamp (\<bar>vec3Len (walk_rawDir inp)\<bar> / frameTime inp) 0 350
      in if prevSpeed s > 20 then (curSpeed + prevSpeed s) / 2 else curSpeed)"

definition walk_stepTime :: "real \<Rightarrow> real" where
  "walk_stepTime curSpeed = clamp (cos (curSpeed / 140)) 0.28 0.50"

definition walk_dir :: "WalkInput \<Rightarrow> NiPoint3" where
  "walk_dir inp = vec3Norm (walk_rawDir inp)"

text \<open>Lines 500 to 505: the feet are moved closer together.\<close>

definition walk_feet :: "WalkInput \<Rightarrow> WalkState \<Rightarrow> WalkState" where
  "walk_feet inp s =
     (let leftToRight = (if inPowerArmor inp
                         then vscale (vsub (rFootWorldPos s) (lFootWorldPos s)) (- 0.15)
                         else vscale (vsub (rFootWorldPos s) (lFootWorldPos s)) 0.3)
      in s\<lparr>lFootWorldPos := vadd (lFootWorldPos s) leftToRight,
            rFootWorldPos := vsub (rFootWorldPos s) leftToRight\<rparr>)"

text \<open>Lines 523 to 528: a deceleration of more than 20 selects state 3.\<close>

definition walk_decel :: "real \<Rightarrow> WalkState \<Rightarrow> WalkState" where
  "walk_decel curSpeed s =
     (let s1 = (if curSpeed - prevSpeed s < - 20 then s\<lparr>walkingState := 3\<rparr> else s)
      in s1\<lparr>prevSpeed := curSpeed\<rparr>)"

text \<open>Lines 532 to 597: the switch over the walking state.\<close>

definition walk_switch :: "WalkInput \<Rightarrow> real \<Rightarrow> real \<Rightarrow> NiPoint3 \<Rightarrow> WalkState \<Rightarrow> WalkState" where
  "walk_switch inp curSpeed stepTime dir s =
     (if \<not> jumpingOrInAir inp then
        (if walkingState s = 0 then
           (if curSpeed \<ge> 35 then
              (let s1 = s\<lparr>walkingState := 1,
                          footStepping := randValue inp mod 2 + 1,
                          stepDir := dir,
                          stepTimeinStep := stepTime,
                          delayFrame := 2\<rparr>;
                   s2 = (if footStepping s1 = 1 then
                           s1\<lparr>rightFootTarget :=
                                 vadd (rFootWorldPos s1) (vscale (stepDir s1) (curSpeed * stepTime * 1.5)),
                               rightFootStart := rFootWorldPos s1,
                               leftFootTarget := lFootWorldPos s1,
                               leftFootStart := lFootWorldPos s1,
                               leftFootPos := lFootWorldPos s1,
                               rightFootPos := rFootWorldPos s1\<rparr>
                         else
                           s1\<lparr>rightFootTarget := rFootWorldPos s1,
                               rightFootStart := rFootWorldPos s1,
                               leftFootTarget :=
                                 vadd (lFootWorldPos s1) (vscale (stepDir s1) (curSpeed * stepTime * 1.5)),
                               leftFootStart := lFootWorldPos s1,
                               leftFootPos := lFootWorldPos s1,
                               rightFootPos := rFootWorldPos s1\<rparr>)
               in s2\<lparr>currentStepTime := stepTime / 2\<rparr>)
            else s\<lparr>currentStepTime := 0, footStepping := 0, spineAngle := 0\<rparr>)
         else if walkingState s = 1 then
           (if curSpeed < 20 then s\<lparr>walkingState := 2, currentStepTime := 0\<rparr> else s)
         else if walkingState s = 2 then
           (if curSpeed \<ge> 20 then s\<lparr>walkingState := 1, currentStepTime := 0\<rparr> else s)
         else if walkingState s = 3 then
           (let s1 = s\<lparr>stepDir := dir\<rparr>;
                s2 = (if footStepping s1 = 1 then
                        s1\<lparr>rightFootTarget :=
                              vadd (rFootWorldPos s1) (vscale (stepDir s1) (curSpeed * stepTime * 0.1))\<rparr>
                      else
                        s1\<lparr>leftFootTarget :=
                              vadd (lFootWorldPos s1) (vscale (stepDir s1) (curSpeed * stepTime * 0.1))\<rparr>)
            in s2\<lparr>walkingState := 1\<rparr>)
         else s\<lparr>walkingState := 0\<rparr>)
      else s\<lparr>walkingState := 0\<rparr>)"

text \<open>
  Lines 608 to 685: one frame of a step. The stepping foot moves from its start to
  its target, the spine is turned, and a finished step hands over to the other foot.
  The matrix of \<^verbatim>\<open>setEulerAngles\<close> comes from the argument \<open>lib\<close>.
\<close>

definition walk_delay :: "bool \<Rightarrow> NiPoint3 \<Rightarrow> NiPoint3 \<Rightarrow> real \<Rightarrow> WalkState \<Rightarrow> WalkState" where
  "walk_delay right dirOffset dir dot s =
     (if dot < 0.9 then
        (if delayFrame s = 0 then
           (if right
            then s\<lparr>rightFootTarget := vadd (rightFootTarget s) dirOffset, stepDir := dir, delayFrame := 2\<rparr>
            else s\<lparr>leftFootTarget := vadd (leftFootTarget s) dirOffset, stepDir := dir, delayFrame := 2\<rparr>)
         else s\<lparr>delayFrame := delayFrame s - 1\<rparr>)
      else s\<lparr>delayFrame := (if delayFrame s = 2 then delayFrame s else delayFrame s + 1)\<rparr>)"

definition walk_foot :: "bool \<Rightarrow> WalkInput \<Rightarrow> real \<Rightarrow> WalkState \<Rightarrow> WalkState" where
  "walk_foot right inp interp s =
     (if right then
        (let s1 = s\<lparr>rightFootTarget := set_z (rightFootTarget s) (rootWorldZ inp),
                    rightFootStart := set_z (rightFootStart s) (rootWorldZ inp)\<rparr>;
             p = vadd (rightFootStart s1) (vscale (vsub (rightFootTarget s1) (rightFootStart s1)) interp);
             stepAmount = clamp (vec3Len (vsub (rightFootTarget s1) (rightFootStart s1)) / 150) 0 1;
             stepHeight = max (stepAmount * 9) 1;
             up = sin (interp * pi) * stepHeight
         in s1\<lparr>rightFootPos := set_z p (vz p + up)\<rparr>)
      else
        (let s1 = s\<lparr>leftFootTarget := set_z (leftFootTarget s) (rootWorldZ inp),
                    leftFootStart := set_z (leftFootStart s) (rootWorldZ inp)\<rparr>;
             p = vadd (leftFootStart s1) (vscale (vsub (leftFootTarget s1) (leftFootStart s1)) interp);
             stepAmount = clamp (vec3Len (vsub (leftFootTarget s1) (leftFootStart s1)) / 150) 0 1;
             stepHeight = max (stepAmount * 9) 1;
             up = sin (interp * pi) * stepHeight
         in s1\<lparr>leftFootPos := set_z p (vz p + up)\<rparr>))"

definition walk_step ::
  "MatrixLib \<Rightarrow> WalkInput \<Rightarrow> real \<Rightarrow> real \<Rightarrow> NiPoint3 \<Rightarrow> WalkState \<Rightarrow> WalkState" where
  "walk_step lib inp curSpeed stepTime dir s =
     (let dirOffset = vsub dir (stepDir s);
          dot = vec3Dot dir (stepDir s);
          scale = min (curSpeed * stepTime * 1.5) 140;
          dirOffset = vscale dirOffset scale;
          s1 = s\<lparr>currentStepTime := currentStepTime s + frameTime inp\<rparr>;
          frameStep = frameTime inp / stepTimeinStep s1;
          interp = clamp (frameStep * (currentStepTime s1 / frameTime inp)) 0 1;
          right = (footStepping s1 = 1);
          sign = (if right then - 1 else 1);
          s2 = walk_foot right inp interp (walk_delay right dirOffset dir dot s1);
          s3 = s2\<lparr>spineAngle := sign * sin (interp * pi) * 3\<rparr>;
          s4 = s3\<lparr>spineLocalRot :=
                    multiply43Left (setEulerAngles lib (degreesToRads (spineAngle s3)) 0 0) (spineLocalRot s3)\<rparr>
      in if currentStepTime s4 > stepTime then
           (let s5 = s4\<lparr>currentStepTime := 0, stepDir := dir, stepTimeinStep := stepTime\<rparr>
            in if footStepping s5 = 1 then
                 s5\<lparr>footStepping := 2,
                     leftFootTarget := vadd (lFootWorldPos s5) (vscale (stepDir s5) scale),
                     leftFootStart := leftFootPos s5\<rparr>
               else
                 s5\<lparr>footStepping := 1,
                     rightFootTarget := vadd (rFootWorldPos s5) (vscale (stepDir s5) scale),
                     rightFootStart := rightFootPos s5\<rparr>)
         else s4)"

text \<open>Lines 599 to 690: what the call does in the state the switch left.\<close>

definition walk_advance ::
  "MatrixLib \<Rightarrow> WalkInput \<Rightarrow> real \<Rightarrow> real \<Rightarrow> NiPoint3 \<Rightarrow> WalkState \<Rightarrow> WalkState" where
  "walk_advance lib inp curSpeed stepTime dir s =
     (if walkingState s = 0 then
        s\<lparr>leftFootPos := set_z (lFootWorldPos s) (rootWorldZ inp),
          rightFootPos := set_z (rFootWorldPos s) (rootWorldZ inp)\<rparr>
      else if walkingState s = 1 then
        walk_step lib inp curSpeed stepTime dir s
      else if walkingState s = 2 then
        s\<lparr>leftFootPos := lFootWorldPos s, rightFootPos := rFootWorldPos s, walkingState := 0\<rparr>
      else s)"

text \<open>
  The state machine of the call (lines 523 to 597), and the whole of \<^verbatim>\<open>walk\<close>. A call
  that misses one of the leg nodes returns before it has written anything.
\<close>

definition walk_machine :: "WalkInput \<Rightarrow> WalkState \<Rightarrow> WalkState" where
  "walk_machine inp s =
     (let curSpeed = walk_curSpeed inp s
      in walk_switch inp curSpeed (walk_stepTime curSpeed) (walk_dir inp) (walk_decel curSpeed s))"





text \<open>
  A frame to run the walk cycle on: the player stands with the feet twenty units
  apart and the camera has moved four units along the x axis in a tenth of a second.
\<close>

definition walk_example_state :: WalkState where
  "walk_example_state =
     \<lparr>walkingState = 0, prevSpeed = 0, footStepping = 0, stepDir = NiPoint3 0 0 0,
      stepTimeinStep = 0, delayFrame = 0, currentStepTime = 0,
      leftFootTarget = NiPoint3 0 0 0, leftFootStart = NiPoint3 0 0 0, leftFootPos = NiPoint3 0 0 0,
      rightFootTarget = NiPoint3 0 0 0, rightFootStart = NiPoint3 0 0 0, rightFootPos = NiPoint3 0 0 0,
      spineAngle = 0, spineLocalRot = mat_id,
      lFootWorldPos = NiPoint3 0 (- 10) 0, rFootWorldPos = NiPoint3 0 10 0\<rparr>"

definition walk_example_frame :: WalkInput where
  "walk_example_frame =
     \<lparr>legNodesFound = True, inPowerArmor = False,
      lastPosition = NiPoint3 0 0 0, curentPosition = NiPoint3 4 0 0,
      frameTime = 1 / 10, rootWorldZ = 0, jumpingOrInAir = False, randValue = 1\<rparr>"

text \<open>
  A small flattened tree to run the propagation on: a root that has a scene node,
  and two bones without one, each the child of the entry before it.
\<close>

definition example_transform :: "real \<Rightarrow> NiTransform" where
  "example_transform k = \<lparr>rot = mat_id, pos = NiPoint3 k 0 0, scale = 1\<rparr>"

definition example_tree :: "BoneTransform list" where
  "example_tree =
     [\<lparr>local = example_transform 0, world = example_transform 0, parPos = - 1,
       refNode = Some \<lparr>m_localTransform = example_transform 0, m_worldTransform = example_transform 5\<rparr>\<rparr>,
      \<lparr>local = example_transform 2, world = example_transform 0, parPos = 0, refNode = None\<rparr>,
      \<lparr>local = example_transform 3, world = example_transform 0, parPos = 1, refNode = None\<rparr>]"

section \<open>The hand pose\<close>

text \<open>
  \<^verbatim>\<open>bone.find(sub)\<close> of \<^verbatim>\<open>std::string\<close>: the first index at which \<open>sub\<close> occurs,
  \<open>None\<close> for \<^verbatim>\<open>npos\<close>.
\<close>

fun find_from :: "string \<Rightarrow> string \<Rightarrow> nat \<Rightarrow> nat option" where
  "find_from [] sub i = (if sub = [] then Some i else None)"
| "find_from (c # cs) sub i =
     (if take (length sub) (c # cs) = sub then Some i else find_from cs sub (Suc i))"

definition str_find :: "string \<Rightarrow> string \<Rightarrow> nat option" where
  "str_find bone sub = find_from bone sub 0"

text \<open>The buttons of the controller that the hand bones are mapped to.\<close>

datatype EVRButtonId = k_EButton_SteamVR_Touchpad | k_EButton_SteamVR_Trigger | k_EButton_Grip

text \<open>
  \<^verbatim>\<open>Quaternion\<close> belongs to \<^verbatim>\<open>common/Quaternion.h\<close>, which is not among the sources.
  The operations the hand pose uses are taken as they come: the default-constructed
  quaternion, \<^verbatim>\<open>fromRot\<close>, \<^verbatim>\<open>q.slerp(t, target)\<close> (the new value of \<open>q\<close>) and
  \<^verbatim>\<open>q.getRot().make43()\<close>.
\<close>

record 'q QuaternionLib = MatrixLib +
  Quaternion :: 'q
  fromRot :: "NiMatrix43 \<Rightarrow> 'q"
  slerp :: "'q \<Rightarrow> real \<Rightarrow> 'q \<Rightarrow> 'q"
  getRot :: "'q \<Rightarrow> NiMatrix43"

text \<open>
  The tables \<^verbatim>\<open>calculateHandPose\<close> reads, and \<^verbatim>\<open>_handBones\<close>, which it writes. A
  table read with \<^verbatim>\<open>operator[]\<close> has a value for every key (a missing key is
  inserted with the default value); \<^verbatim>\<open>_handBonesButton\<close> is read with \<^verbatim>\<open>at\<close>, which
  throws for a missing key.
\<close>

record HandPoseState =
  handPapyrusHasControl :: "string \<Rightarrow> bool"
  handPapyrusPose :: "string \<Rightarrow> real"
  handOpen :: "string \<Rightarrow> NiTransform"
  handClosed :: "string \<Rightarrow> NiTransform"
  closedHand :: "string \<Rightarrow> bool"
  handBonesButton :: "string \<rightharpoonup> EVRButtonId"
  handBones :: "string \<Rightarrow> NiTransform"

text \<open>Lines 1381 to 1416: the rotation the bone is blended towards, \<^verbatim>\<open>qt\<close>.\<close>

definition handPoseTarget ::
  "'q QuaternionLib \<Rightarrow> HandPoseState \<Rightarrow> string \<Rightarrow> real \<Rightarrow> bool \<Rightarrow> bool \<Rightarrow> error + 'q" where
  "handPoseTarget lib st bone gripProx thumbUp isLeft =
     (let sign = (if isLeft then - 1 else 1 :: real)
      in if handPapyrusHasControl st bone then
           (let qt = fromRot lib (rot (handOpen st bone));
                qo = fromRot lib (rot (handClosed st bone))
            in Inr (slerp lib qo (clamp (handPapyrusPose st bone) 0 1) qt))
         else if thumbUp \<and> str_find bone ''Finger1'' \<noteq> None then
           (if str_find bone ''Finger11'' \<noteq> None then
              Inr (fromRot lib
                    (multiply43Left (setEulerAngles lib (sign * 0.5) (sign * 0.4) (- 0.3))
                       (rot (handOpen st bone))))
            else if str_find bone ''Finger13'' \<noteq> None then
              Inr (fromRot lib
                    (multiply43Left (setEulerAngles lib 0 0 (degreesToRads (- 35)))
                       (rot (handOpen st bone))))
            else Inr (Quaternion lib))
         else if closedHand st bone then
           Inr (fromRot lib (rot (handClosed st bone)))
         else
           (let qt = fromRot lib (rot (handOpen st bone))
            in case handBonesButton st bone of
                 None \<Rightarrow> Inl KeyNotFound
               | Some b \<Rightarrow>
                   (if b = k_EButton_Grip
                    then Inr (slerp lib (fromRot lib (rot (handClosed st bone))) (1 - gripProx) qt)
                    else Inr qt)))"

text \<open>Lines 1418 to 1421: the bone is blended towards the target and stored.\<close>

definition calculateHandPose ::
  "'q QuaternionLib \<Rightarrow> real \<Rightarrow> HandPoseState \<Rightarrow> string \<Rightarrow> real \<Rightarrow> bool \<Rightarrow> bool \<Rightarrow> error + HandPoseState" where
  "calculateHandPose lib dt st bone gripProx thumbUp isLeft =
     (case handPoseTarget lib st bone gripProx thumbUp isLeft of
        Inl e \<Rightarrow> Inl e
      | Inr qt \<Rightarrow>
          (let qc = fromRot lib (rot (handBones st bone));
               blend = clamp (dt * 7) 0 1;
               qc = slerp lib qc blend qt
           in Inr (st\<lparr>handBones := (handBones st)(bone := (handBones st bone)\<lparr>rot := getRot lib qc\<rparr>)\<rparr>)))"

text \<open>The finger bones of \<^verbatim>\<open>makeFingerRelations\<close>.\<close>

definition fingerBones :: "string list" where
  "fingerBones =
     [''LArm_Finger11'', ''LArm_Finger12'', ''LArm_Finger13'',
      ''LArm_Finger21'', ''LArm_Finger22'', ''LArm_Finger23'',
      ''LArm_Finger31'', ''LArm_Finger32'', ''LArm_Finger33'',
      ''LArm_Finger41'', ''LArm_Finger42'', ''LArm_Finger43'',
      ''LArm_Finger51'', ''LArm_Finger52'', ''LArm_Finger53'',
      ''RArm_Finger11'', ''RArm_Finger12'', ''RArm_Finger13'',
      ''RArm_Finger21'', ''RArm_Finger22'', ''RArm_Finger23'',
      ''RArm_Finger31'', ''RArm_Finger32'', ''RArm_Finger33'',
      ''RArm_Finger41'', ''RArm_Finger42'', ''RArm_Finger43'',
      ''RArm_Finger51'', ''RArm_Finger52'', ''RArm_Finger53'']"

text \<open>
  Helpers to run the walk cycle and the hand pose with: every matrix is the identity.
\<close>

definition example_matrix_lib :: MatrixLib where
  "example_matrix_lib =
     \<lparr>setEulerAngles = (\<lambda>a b c. mat_id), rotateVectorVec = (\<lambda>a b. mat_id),
      getRotationAxisAngle = (\<lambda>a b. mat_id), rotateXY = (\<lambda>v a. v), vec3Det = (\<lambda>a b c. 0)\<rparr>"

text \<open>
  A hand to run the pose on: quaternions stand for their rotation matrices, and a
  blend takes the target as soon as its weight is positive.
\<close>

definition example_lib :: "NiMatrix43 QuaternionLib" where
  "example_lib =
     \<lparr>setEulerAngles = (\<lambda>a b c. mat_id), rotateVectorVec = (\<lambda>a b. mat_id),
      getRotationAxisAngle = (\<lambda>a b. mat_id), rotateXY = (\<lambda>v a. v), vec3Det = (\<lambda>a b c. 0),
      Quaternion = mat_id, fromRot = (\<lambda>m. m),
      slerp = (\<lambda>q t target. if t \<le> 0 then q else target),
      getRot = (\<lambda>q. q)\<rparr>"

definition example_hand :: HandPoseState where
  "example_hand =
     \<lparr>handPapyrusHasControl = (\<lambda>b. False), handPapyrusPose = (\<lambda>b. 0),
      handOpen = (\<lambda>b. example_transform 1), handClosed = (\<lambda>b. example_transform 2),
      closedHand = (\<lambda>b. False), handBonesButton = (\<lambda>b. Some k_EButton_SteamVR_Touchpad),
      handBones = (\<lambda>b. example_transform 1)\<rparr>"

section \<open>The neck yaw\<close>

text \<open>
  What \<^verbatim>\<open>getNeckYaw\<close> reads of the player nodes: the world positions of the upright
  HMD node and of the two wand nodes, and the world rotation and the local position of
  the HMD node.
\<close>

record PlayerNodes =
  UprightHmdNode_worldPos :: NiPoint3
  SecondaryWandNode_worldPos :: NiPoint3
  primaryWandNode_worldPos :: NiPoint3
  HmdNode_worldRot :: NiMatrix43
  HmdNode_localPos :: NiPoint3

text \<open>
  \<^verbatim>\<open>atan2f(y, x)\<close> of the C library: the angle of the point \<open>(x, y)\<close>, between
  \<open>- pi\<close> and \<open>pi\<close>.
\<close>

definition atan2f :: "real \<Rightarrow> real \<Rightarrow> real" where
  "atan2f y x =
     (if x > 0 then arctan (y / x)
      else if x < 0 \<and> y \<ge> 0 then arctan (y / x) + pi
      else if x < 0 then arctan (y / x) - pi
      else if y > 0 then pi / 2
      else if y < 0 then - pi / 2
      else 0)"

definition hmdToLeft :: "PlayerNodes \<Rightarrow> NiPoint3" where
  "hmdToLeft n = vsub (SecondaryWandNode_worldPos n) (UprightHmdNode_worldPos n)"

definition hmdToRight :: "PlayerNodes \<Rightarrow> NiPoint3" where
  "hmdToRight n = vsub (primaryWandNode_worldPos n) (UprightHmdNode_worldPos n)"

text \<open>Lines 294 to 317: the weight, lowered for a hand above the head and for crossed hands.\<close>

definition neckYaw_weight :: "PlayerNodes \<Rightarrow> real" where
  "neckYaw_weight n =
     (let weight = 1;
          weight = (if vz (hmdToLeft n) > 0 then max (weight - 0.05 * vz (hmdToLeft n)) 0 else weight);
          weight = (if vz (hmdToRight n) > 0 then max (weight - 0.05 * vz (hmdToRight n)) 0 else weight);
          locLeft = mat_vec (Transpose (HmdNode_worldRot n)) (hmdToLeft n);
          locRight = mat_vec (Transpose (HmdNode_worldRot n)) (hmdToRight n)
      in if vx locLeft > vx locRight
         then (let delta = vx locRight - vx locLeft in max (weight + 0.02 * delta) 0)
         else weight)"

text \<open>Lines 319 to 329: the yaw angle of the summed hand directions.\<close>

definition neckYaw_angleFinal :: "PlayerNodes \<Rightarrow> real" where
  "neckYaw_angleFinal n =
     (let sum = vadd (hmdToRight n) (hmdToLeft n);
          forwardDir = vec3Norm (mat_vec (Transpose (HmdNode_worldRot n)) (vec3Norm sum));
          hmdForwardDir = vec3Norm (mat_vec (Transpose (HmdNode_worldRot n)) (HmdNode_localPos n));
          anglePrime = atan2f (vx forwardDir) (vy forwardDir);
          angleSec = atan2f (vx forwardDir) (vz forwardDir);
          pitchDiff = atan2f (vy hmdForwardDir) (vz hmdForwardDir) - atan2f (vz forwardDir) (vy forwardDir)
      in if \<bar>pitchDiff\<bar> > degreesToRads 80 then angleSec else anglePrime)"

text \<open>\<^verbatim>\<open>getNeckYaw\<close>; the argument is \<open>None\<close> when \<^verbatim>\<open>_playerNodes\<close> is null.\<close>

definition getNeckYaw :: "PlayerNodes option \<Rightarrow> real" where
  "getNeckYaw playerNodes =
     (case playerNodes of
        None \<Rightarrow> 0
      | Some n \<Rightarrow>
          (if vec3Len (hmdToLeft n) < 10 \<or> vec3Len (hmdToRight n) < 10 then 0
           else clamp (- neckYaw_angleFinal n * neckYaw_weight n)
                  (degreesToRads (- 50)) (degreesToRads 50)))"

text \<open>
  The result as the claim words it: the yaw angle clamped to 50 degrees either way,
  then scaled by the weight.
\<close>

definition spec_neckYaw :: "PlayerNodes \<Rightarrow> real" where
  "spec_neckYaw n =
     clamp (- neckYaw_angleFinal n) (degreesToRads (- 50)) (degreesToRads 50) * neckYaw_weight n"

text \<open>
  Two poses to run the neck yaw on: the left hand ten units above the head with the
  right hand low and to the side, and the same pose with the left hand only five
  units away.
\<close>

definition example_nodes :: PlayerNodes where
  "example_nodes =
     \<lparr>UprightHmdNode_worldPos = NiPoint3 0 0 0,
      SecondaryWandNode_worldPos = NiPoint3 0 0 10,
      primaryWandNode_worldPos = NiPoint3 30 0 (- 50),
      HmdNode_worldRot = mat_id,
      HmdNode_localPos = NiPoint3 0 (- 1) 0\<rparr>"

definition example_nodes_near :: PlayerNodes where
  "example_nodes_near = example_nodes\<lparr>SecondaryWandNode_worldPos := NiPoint3 0 0 5\<rparr>"

section \<open>The leg solver\<close>

text \<open>
  A division by zero and the arc cosine of a number outside the range from -1 to 1
  give a number that is not finite (an infinity or NaN). Where the solvers can meet
  one, the number is \<open>None\<close>; a call that stores such a number in a bone ends in the
  error \<open>NonFinite\<close>.
\<close>

definition fdiv :: "real \<Rightarrow> real \<Rightarrow> real option" where
  "fdiv a b = (if b = 0 then None else Some (a / b))"

definition acosf :: "real \<Rightarrow> real option" where
  "acosf v = (if - 1 \<le> v \<and> v \<le> 1 then Some (arccos v) else None)"

text \<open>
  The law of cosines as both solvers write it:
  \<^verbatim>\<open>acosf((b * b + c * c - a * a) / (2 * b * c))\<close>.
\<close>

definition cosineLaw :: "real \<Rightarrow> real \<Rightarrow> real \<Rightarrow> real option" where
  "cosineLaw b c a =
     (case fdiv (b * b + c * c - a * a) (2 * b * c) of
        None \<Rightarrow> None
      | Some v \<Rightarrow> acosf v)"







definition set_local_rot :: "NiAVObject \<Rightarrow> NiMatrix43 \<Rightarrow> NiAVObject" where
  "set_local_rot n r = n\<lparr>m_localTransform := (m_localTransform n)\<lparr>rot := r\<rparr>\<rparr>"

definition set_local_pos :: "NiAVObject \<Rightarrow> NiPoint3 \<Rightarrow> NiAVObject" where
  "set_local_pos n p = n\<lparr>m_localTransform := (m_localTransform n)\<lparr>pos := p\<rparr>\<rparr>"


text \<open>
  Two legs to run the solver on: one with a thigh of 30 and a calf of 40 units and
  the foot 100 units below the hip, and one whose two bones have no length.
\<close>

definition example_node :: "NiPoint3 \<Rightarrow> NiPoint3 \<Rightarrow> NiAVObject" where
  "example_node l w =
     \<lparr>m_localTransform = \<lparr>rot = mat_id, pos = l, scale = 1\<rparr>,
      m_worldTransform = \<lparr>rot = mat_id, pos = w, scale = 1\<rparr>\<rparr>"



section \<open>The arm solver\<close>

text \<open>
  The guard at the head of \<^verbatim>\<open>setArms\<close> tests the hand position for NaN and for the
  infinities, so its three components are numbers that may be one of these.
\<close>

datatype fl = Finite real | NaN | PosInf | NegInf

datatype FlPoint3 = FlPoint3 (fx: fl) (fy: fl) (fz: fl)

definition isnan :: "fl \<Rightarrow> bool" where
  "isnan v \<longleftrightarrow> v = NaN"

definition isinf :: "fl \<Rightarrow> bool" where
  "isinf v \<longleftrightarrow> v = PosInf \<or> v = NegInf"

fun the_real :: "fl \<Rightarrow> real" where
  "the_real (Finite r) = r"
| "the_real NaN = 0"
| "the_real PosInf = 0"
| "the_real NegInf = 0"

text \<open>
  The nodes of one arm (\<^verbatim>\<open>upperT1\<close> is not used by the solver) and the world
  transform of the parent of the clavicle. The second and third forearm segments
  may be missing.
\<close>

record ArmNodes =
  shoulder :: NiAVObject
  upper :: NiAVObject
  forearm1 :: NiAVObject
  forearm2 :: "NiAVObject option"
  forearm3 :: "NiAVObject option"
  hand :: NiAVObject
  shoulderParent_world :: NiTransform

text \<open>
  Both arms and the function-local static \<^verbatim>\<open>prevAngle\<close>, an array of two angles
  indexed with 0 for the left and 1 for the right arm.
\<close>

record ArmsState =
  leftArm :: ArmNodes
  rightArm :: ArmNodes
  prevAngle :: "nat \<Rightarrow> real"

text \<open>
  What a call of \<^verbatim>\<open>setArms\<close> reads besides the arms. \<open>handPos\<close> and \<open>handRot\<close>
  are the world position and rotation of the first-person hand after line 1071 (the
  game's own \<^verbatim>\<open>Update1StPersonArm\<close> has placed it).
\<close>

record ArmInput =
  firstPersonSkeleton :: bool
  handPos :: FlPoint3
  handRot :: NiMatrix43
  armLength :: real
  armInPowerArmor :: bool
  forwardDir :: NiPoint3
  sidewaysRDir :: NiPoint3
  chest_worldPos :: NiPoint3
  root_localScale :: real

text \<open>
  Modelled from the spec: \<^verbatim>\<open>updateDown\<close> is declared in \<^verbatim>\<open>f4vr/F4VRUtils.h\<close>, which
  is not among the sources. With \<^verbatim>\<open>true\<close> it recomputes the world transform of the
  node and of every node below it by the propagation rule of section 4.1 (the world
  scale is the product of the scales). Below the clavicle the arm is the chain of
  upper arm, forearm segments and hand.
\<close>

definition compose_world :: "NiTransform \<Rightarrow> NiTransform \<Rightarrow> NiTransform" where
  "compose_world par l =
     \<lparr>rot = mat_mul (rot par) (rot l),
      pos = vadd (pos par) (mat_vec (rot par) (vscale (pos l) (scale par))),
      scale = scale par * scale l\<rparr>"

definition update_node :: "NiTransform \<Rightarrow> NiAVObject \<Rightarrow> NiAVObject" where
  "update_node par n = n\<lparr>m_worldTransform := compose_world par (m_localTransform n)\<rparr>"

definition updateDown :: "ArmNodes \<Rightarrow> ArmNodes" where
  "updateDown arm =
     (let s = update_node (shoulderParent_world arm) (shoulder arm);
          u = update_node (m_worldTransform s) (upper arm);
          f1 = update_node (m_worldTransform u) (forearm1 arm);
          f2 = map_option (update_node (m_worldTransform f1)) (forearm2 arm);
          w2 = (case f2 of None \<Rightarrow> m_worldTransform f1 | Some n \<Rightarrow> m_worldTransform n);
          f3 = map_option (update_node w2) (forearm3 arm);
          w3 = (case f3 of None \<Rightarrow> w2 | Some n \<Rightarrow> m_worldTransform n);
          h = update_node w3 (hand arm)
      in arm\<lparr>shoulder := s, upper := u, forearm1 := f1, forearm2 := f2, forearm3 := f3, hand := h\<rparr>)"

text \<open>
  Lines 1080 to 1084: the first guard. The result is the hand position when the call
  goes on, and \<open>None\<close> when it returns.
\<close>

definition arm_guard :: "ArmInput \<Rightarrow> ArmNodes \<Rightarrow> NiPoint3 option" where
  "arm_guard inp arm =
     (let hp = handPos inp
      in if isnan (fx hp) \<or> isnan (fy hp) \<or> isnan (fz hp)
            \<or> isinf (fx hp) \<or> isinf (fy hp) \<or> isinf (fz hp)
         then None
         else
           (let p = NiPoint3 (the_real (fx hp)) (the_real (fy hp)) (the_real (fz hp))
            in if vec3Len (vsub (pos (m_worldTransform (upper arm))) p) > 200 then None
               else Some p))"

text \<open>Lines 1090 to 1106: the clavicle is turned towards the hand.\<close>

definition shoulderIK :: "MatrixLib \<Rightarrow> ArmInput \<Rightarrow> NiPoint3 \<Rightarrow> ArmNodes \<Rightarrow> error + ArmNodes" where
  "shoulderIK lib inp hp arm =
     (if armLength inp * 0.85 = 0 \<or> scale (m_worldTransform (shoulder arm)) = 0 then Inl NonFinite
      else
        (let shoulderToHand = vsub hp (pos (m_worldTransform (upper arm)));
             adjustAmount = clamp (vec3Len shoulderToHand - armLength inp * 0.5) 0 (armLength inp * 0.85)
                              / (armLength inp * 0.85);
             shoulderOffset = vscale (vec3Norm shoulderToHand) (adjustAmount * armLength inp * 0.08);
             clavicalToNewShoulder =
               vsub (vadd (pos (m_worldTransform (upper arm))) shoulderOffset)
                    (pos (m_worldTransform (shoulder arm)));
             sLocalDir = vdiv (mat_vec (Transpose (rot (m_worldTransform (shoulder arm)))) clavicalToNewShoulder)
                           (scale (m_worldTransform (shoulder arm)));
             rotatedM = rotateVectorVec lib sLocalDir (NiPoint3 1 0 0);
             result = multiply43Left rotatedM (rot (m_localTransform (shoulder arm)))
         in Inr (updateDown (arm\<lparr>shoulder := set_local_rot (shoulder arm) result\<rparr>))))"

text \<open>
  Lines 1124 to 1131: the bind lengths of the upper arm and of the forearm. Outside
  power armor the source reads the second and third forearm segment unchecked.
\<close>

definition arm_originalLens :: "bool \<Rightarrow> ArmNodes \<Rightarrow> error + (real \<times> real)" where
  "arm_originalLens inPA arm =
     (let originalUpperLen = vec3Len (pos (m_localTransform (forearm1 arm)))
      in if inPA then Inr (originalUpperLen, vec3Len (pos (m_localTransform (hand arm))))
         else
           (case (forearm2 arm, forearm3 arm) of
              (Some f2, Some f3) \<Rightarrow>
                Inr (originalUpperLen,
                     vec3Len (pos (m_localTransform (hand arm)))
                       + vec3Len (pos (m_localTransform f2))
                       + vec3Len (pos (m_localTransform f3)))
            | _ \<Rightarrow> Inl NullPointer))"

text \<open>Lines 1143 to 1149: the pair of \<^verbatim>\<open>upperLen\<close> and \<^verbatim>\<open>forearmLen\<close> after the stretch.\<close>

definition arm_stretch :: "real \<Rightarrow> real \<Rightarrow> real \<Rightarrow> (real \<times> real) option" where
  "arm_stretch upperLen forearmLen hsLen =
     (if hsLen > upperLen + forearmLen then
        (let diff = hsLen - upperLen - forearmLen
         in case fdiv forearmLen (forearmLen + upperLen) of
              None \<Rightarrow> None
            | Some ratio \<Rightarrow>
                Some (upperLen + ((1 - ratio) * diff + 0.1), forearmLen + (ratio * diff + 0.1)))
      else Some (upperLen, forearmLen))"

text \<open>
  Lines 1154 to 1167: the blend of the two raw twist angles of the hand.
\<close>

definition arm_rawTwist :: "NiMatrix43 \<Rightarrow> real" where
  "arm_rawTwist hRot =
     (let handBack = mat_vec hRot (NiPoint3 (- 1) 0 0);
          twistAngle = arcsin (clamp (vz handBack) (- 0.999) 0.999);
          handSide = mat_vec hRot (NiPoint3 0 (- 1) 0);
          twistAngle2 = - 1 * arcsin (clamp (vz handSide) (- 0.599) 0.999);
          interpTwist = clamp ((vz handBack + 0.866) * 1.155) 0.45 0.8
      in twistAngle + interpTwist * (twistAngle2 - twistAngle))"

text \<open>Lines 1176 to 1178: the angle is smoothed and stored for the next frame.\<close>

definition arm_smoothTwist :: "bool \<Rightarrow> real \<Rightarrow> ArmsState \<Rightarrow> real \<times> ArmsState" where
  "arm_smoothTwist isLeft twistAngle st =
     (let i = (if isLeft then 0 else 1);
          twistAngle = prevAngle st i + (twistAngle - prevAngle st i) * 0.25
      in (twistAngle, st\<lparr>prevAngle := (prevAngle st)(i := twistAngle)\<rparr>))"

text \<open>
  Lines 1234 to 1238: the first solve of the wrist angle and the second solve with
  both segments at the average length. Each gives the angle and the \<^verbatim>\<open>forearmLen\<close> it
  was solved with.
\<close>

definition arm_firstAngle :: "real \<Rightarrow> real \<Rightarrow> real \<Rightarrow> (real \<times> real) option" where
  "arm_firstAngle upperLen0 forearmLen0 hsLen =
     (case arm_stretch upperLen0 forearmLen0 hsLen of
        None \<Rightarrow> None
      | Some (upperLen, forearmLen) \<Rightarrow>
          map_option (\<lambda>wristAngle. (wristAngle, forearmLen)) (cosineLaw forearmLen hsLen upperLen))"

definition arm_secondAngle :: "real \<Rightarrow> real \<Rightarrow> real \<Rightarrow> real \<Rightarrow> (real \<times> real) option" where
  "arm_secondAngle originalUpperLen originalForearmLen adjustedArmLength hsLen =
     (let upperLen = (originalUpperLen + originalForearmLen) / 2 * adjustedArmLength;
          forearmLen = upperLen
      in map_option (\<lambda>wristAngle. (wristAngle, forearmLen)) (cosineLaw forearmLen hsLen upperLen))"

definition arm_wristAngle :: "real \<Rightarrow> real \<Rightarrow> real \<Rightarrow> real \<Rightarrow> (real \<times> real) option" where
  "arm_wristAngle originalUpperLen originalForearmLen adjustedArmLength hsLen =
     (case arm_firstAngle (originalUpperLen * adjustedArmLength)
             (originalForearmLen * adjustedArmLength) hsLen of
        Some r \<Rightarrow> Some r
      | None \<Rightarrow> arm_secondAngle originalUpperLen originalForearmLen adjustedArmLength hsLen)"

definition set_x :: "NiPoint3 \<Rightarrow> real \<Rightarrow> NiPoint3" where
  "set_x v k = NiPoint3 k (vy v) (vz v)"

text \<open>
  Lines 1151 to 1153 and 1180 to 1230: the range of the elbow twist and, from it, the
  direction \<^verbatim>\<open>yDir\<close> in which the elbow bends.
\<close>

definition arm_yDir ::
  "MatrixLib \<Rightarrow> ArmInput \<Rightarrow> bool \<Rightarrow> ArmNodes \<Rightarrow> NiPoint3 \<Rightarrow> NiPoint3 \<Rightarrow> real \<Rightarrow> NiPoint3" where
  "arm_yDir lib inp isLeft arm hp handToShoulder twistAngle =
     (let negLeft = (if isLeft then - 1 else 1 :: real);
          fwd = vec3Norm (forwardDir inp);
          side = vec3Norm (vscale (sidewaysRDir inp) negLeft);
          handSide = mat_vec (handRot inp) (NiPoint3 0 (- 1) 0);
          sp = pos (m_worldTransform (shoulder arm));
          size = 1;
          behindD = - (vx fwd * vx sp + vy fwd * vy sp) - 10;
          handBehindDist = - (vx hp * vx fwd + vy hp * vy fwd + behindD);
          behindAmount = clamp (handBehindDist / (40 * size)) 0 1;
          planeDir = rotateXY lib fwd (negLeft * degreesToRads 135);
          planeD = - (vx planeDir * vx sp + vy planeDir * vy sp) + 16 * size;
          armCrossAmount = clamp ((vx hp * vx planeDir + vy hp * vy planeDir + planeD) / (20 * size)) 0 1;
          armLiftLimitZ = vz (chest_worldPos inp) * size;
          armLiftThreshold = 60 * size;
          armLiftLimit = clamp ((armLiftLimitZ + armLiftThreshold - vz hp) / armLiftThreshold) 0 1;
          upLimit = clamp ((1 - armLiftLimit) * 1.4) 0 1;
          adjustMinAmount = max behindAmount (min armCrossAmount armLiftLimit);
          twistMinAngle = degreesToRads (- 85) + degreesToRads 50 * adjustMinAmount;
          twistMaxAngle = degreesToRads 55
                            - max (degreesToRads 90 * armCrossAmount) (degreesToRads 70 * upLimit);
          twistLimitAngle = twistMinAngle + (twistAngle + pi / 2) / pi * (twistMaxAngle - twistMinAngle);
          r = getRotationAxisAngle lib (vscale side negLeft) twistLimitAngle;
          bendDownDir = mat_vec r fwd;
          xDir = vec3Norm handToShoulder;
          sideD = - (vx side * vx sp + vy side * vy sp) - 1 * 8;
          acrossAmount = - (vx hp * vx side + vy hp * vy side + sideD) / (16 * 1);
          handSideTwistOutward = vec3Dot handSide (vec3Norm (vadd side (vscale fwd 0.5)));
          armTwist = clamp (handSideTwistOutward - max 0 (acrossAmount + 0.25)) 0 1;
          acrossAmount = (if acrossAmount < 0 then acrossAmount * 0.2 else acrossAmount);
          handBehindHead = clamp ((handBehindDist + 0 * size) / (15 * size)) 0 1 * clamp (upLimit * 1.2) 0 1;
          elbowsTwistForward = max (acrossAmount * degreesToRads 90) (handBehindHead * degreesToRads 120);
          elbowDir = rotateXY lib bendDownDir
                       (- negLeft * (degreesToRads 150 - armTwist * degreesToRads 25 - elbowsTwistForward))
      in vec3Norm (vsub elbowDir (vscale xDir (vec3Dot elbowDir xDir))))"

text \<open>
  Lines 1298 to 1326: outside power armor the roll of the hand is shared between the
  second and the third forearm segment. The result is the two segments and the world
  rotation \<^verbatim>\<open>Fwr3\<close> of the third.
\<close>

definition arm_forearmRoll ::
  "MatrixLib \<Rightarrow> real \<Rightarrow> NiPoint3 \<Rightarrow> NiMatrix43 \<Rightarrow> NiAVObject \<Rightarrow> NiAVObject
     \<Rightarrow> NiAVObject \<times> NiAVObject \<times> NiMatrix43" where
  "arm_forearmRoll lib negLeft handInSide Fwr f2 f3 =
     (let Fwr2 = multiply43Left (rot (m_localTransform f2)) Fwr;
          Fwr3 = multiply43Left (rot (m_localTransform f3)) Fwr2;
          wLocalDir = set_x (mat_vec (Transpose Fwr3) (vec3Norm handInSide)) 0;
          forearm3Side = mat_vec Fwr3 (NiPoint3 0 0 (- 1));
          floc = set_x (mat_vec (Transpose Fwr2) (vec3Norm forearm3Side)) 0;
          fcos = vec3Dot (vec3Norm wLocalDir) (vec3Norm floc);
          fsin = vec3Det lib (vec3Norm wLocalDir) (vec3Norm floc) (NiPoint3 (- 1) 0 0);
          forearmAngle = - 1 * negLeft * atan2f fsin fcos;
          twist = setEulerAngles lib (negLeft * forearmAngle / 2) 0 0;
          f2 = set_local_rot f2 (multiply43Left twist (rot (m_localTransform f2)));
          f3 = set_local_rot f3 (multiply43Left twist (rot (m_localTransform f3)));
          Fwr2 = multiply43Left (rot (m_localTransform f2)) Fwr;
          Fwr3 = multiply43Left (rot (m_localTransform f3)) Fwr2
      in (f2, f3, Fwr3))"

definition scale_local_pos :: "real \<Rightarrow> NiAVObject \<Rightarrow> NiAVObject" where
  "scale_local_pos k n = set_local_pos n (vscale (pos (m_localTransform n)) k)"

text \<open>
  Lines 1251 to 1346: the upper arm is aimed at the elbow and twisted, the forearm is
  aimed at the hand, the hand takes the rotation of the target, and the segments take
  their lengths.
\<close>

definition arm_orient ::
  "MatrixLib \<Rightarrow> ArmInput \<Rightarrow> bool \<Rightarrow> NiPoint3 \<Rightarrow> NiPoint3 \<Rightarrow> real \<Rightarrow> ArmNodes \<Rightarrow> error + ArmNodes" where
  "arm_orient lib inp isLeft hp elbowWorld forearmLen arm =
     (let negLeft = (if isLeft then - 1 else 1 :: real);
          handSide = mat_vec (handRot inp) (NiPoint3 0 (- 1) 0);
          handInSide = vscale handSide negLeft;
          Uwp = pos (m_worldTransform (upper arm));
          Cwr = rot (m_worldTransform (shoulder arm));
          origEHLen = vec3Len (vsub (pos (m_worldTransform (hand arm)))
                                 (pos (m_worldTransform (forearm1 arm))))
      in if scale (m_worldTransform (upper arm)) = 0 \<or> origEHLen = 0 then Inl NonFinite
         else
           (let Uwr = rot (m_worldTransform (upper arm));
                uLocalDir = vdiv (mat_vec (Transpose Uwr) (vec3Norm (vsub elbowWorld Uwp)))
                              (scale (m_worldTransform (upper arm)));
                rotatedM = rotateVectorVec lib uLocalDir (pos (m_localTransform (forearm1 arm)));
                u = set_local_rot (upper arm) (multiply43Left rotatedM (rot (m_localTransform (upper arm))));
                Uwr = multiply43Left (rot (m_localTransform u)) Cwr;
                uLocalTwist = set_x (mat_vec (Transpose Uwr) (vec3Norm (vsub hp elbowWorld))) 0;
                upperSide = mat_vec (rot (m_worldTransform (upper arm))) (NiPoint3 0 1 0);
                uloc = set_x (mat_vec (Transpose Cwr) upperSide) 0
            in case acosf (vec3Dot (vec3Norm uLocalTwist) (vec3Norm uloc)) of
                 None \<Rightarrow> Inl NonFinite
               | Some ac \<Rightarrow>
                   (let upperAngle = ac * (if vz uLocalTwist > 0 then 1 else - 1);
                        twist = setEulerAngles lib (- upperAngle) 0 0;
                        u = set_local_rot u (multiply43Left twist (rot (m_localTransform u)));
                        Uwr = multiply43Left (rot (m_localTransform u)) Cwr;
                        f1 = set_local_rot (forearm1 arm)
                               (multiply43Left twist (rot (m_localTransform (forearm1 arm))));
                        Fwr = multiply43Left (rot (m_localTransform f1)) Uwr;
                        fLocalDir = mat_vec (Transpose Fwr) (vec3Norm (vsub hp elbowWorld));
                        rotatedM = rotateVectorVec lib fLocalDir (NiPoint3 1 0 0);
                        f1 = set_local_rot f1 (multiply43Left rotatedM (rot (m_localTransform f1)));
                        Fwr = multiply43Left (rot (m_localTransform f1)) Uwr;
                        f1 = set_local_pos f1
                               (mat_vec (Transpose Uwr)
                                  (vdiv (vsub elbowWorld Uwp) (scale (m_worldTransform (upper arm)))));
                        forearmRatio = forearmLen / origEHLen * root_localScale inp
                    in if armInPowerArmor inp then
                         Inr (arm\<lparr>upper := u, forearm1 := f1,
                                  hand := scale_local_pos forearmRatio
                                            (set_local_rot (hand arm)
                                               (multiply43Left (handRot inp) (Transpose Fwr)))\<rparr>)
                       else
                         (case (forearm2 arm, forearm3 arm) of
                            (Some f2, Some f3) \<Rightarrow>
                              (case arm_forearmRoll lib negLeft handInSide Fwr f2 f3 of
                                 (f2, f3, Fwr3) \<Rightarrow>
                                   Inr (arm\<lparr>upper := u, forearm1 := f1,
                                            forearm2 := Some (scale_local_pos forearmRatio f2),
                                            forearm3 := Some (scale_local_pos forearmRatio f3),
                                            hand := scale_local_pos forearmRatio
                                                      (set_local_rot (hand arm)
                                                         (multiply43Left (handRot inp) (Transpose Fwr3)))\<rparr>))
                          | _ \<Rightarrow> Inl NullPointer))))"

text \<open>
  Lines 1143 to 1347: the solve of one arm once both guards have let the call pass.
\<close>

definition arm_solve ::
  "MatrixLib \<Rightarrow> ArmInput \<Rightarrow> bool \<Rightarrow> NiPoint3 \<Rightarrow> real \<Rightarrow> real \<Rightarrow> real \<Rightarrow> ArmNodes \<Rightarrow> ArmsState
     \<Rightarrow> error + ArmsState" where
  "arm_solve lib inp isLeft hp originalUpperLen originalForearmLen hsLen arm st =
     (let adjustedArmLength = armLength inp / 36.74;
          handToShoulder = vsub (pos (m_worldTransform (upper arm))) hp
      in case arm_smoothTwist isLeft (arm_rawTwist (handRot inp)) st of
           (twistAngle, st) \<Rightarrow>
             (let xDir = vec3Norm handToShoulder;
                  yDir = arm_yDir lib inp isLeft arm hp handToShoulder twistAngle
              in case arm_wristAngle originalUpperLen originalForearmLen adjustedArmLength hsLen of
                   None \<Rightarrow> Inl NonFinite
                 | Some (wristAngle, forearmLen) \<Rightarrow>
                     (let xDist = cos wristAngle * forearmLen;
                          yDist = sin wristAngle * forearmLen;
                          elbowWorld = vadd (vadd hp (vscale xDir xDist)) (vscale yDir yDist)
                      in case arm_orient lib inp isLeft hp elbowWorld forearmLen arm of
                           Inl e \<Rightarrow> Inl e
                         | Inr arm \<Rightarrow>
                             Inr (if isLeft then st\<lparr>leftArm := arm\<rparr> else st\<lparr>rightArm := arm\<rparr>))))"

text \<open>\<^verbatim>\<open>setArms\<close> from line 1073 on.\<close>

definition setArms :: "MatrixLib \<Rightarrow> ArmInput \<Rightarrow> bool \<Rightarrow> ArmsState \<Rightarrow> error + ArmsState" where
  "setArms lib inp isLeft st =
     (if \<not> firstPersonSkeleton inp then Inr st
      else
        (let arm = (if isLeft then leftArm st else rightArm st)
         in case arm_guard inp arm of
              None \<Rightarrow> Inr st
            | Some hp \<Rightarrow>
                (case shoulderIK lib inp hp arm of
                   Inl e \<Rightarrow> Inl e
                 | Inr arm \<Rightarrow>
                     (case arm_originalLens (armInPowerArmor inp) arm of
                        Inl e \<Rightarrow> Inl e
                      | Inr (originalUpperLen, originalForearmLen) \<Rightarrow>
                          (let adjustedArmLength = armLength inp / 36.74;
                               upperLen = originalUpperLen * adjustedArmLength;
                               forearmLen = originalForearmLen * adjustedArmLength;
                               handToShoulder = vsub (pos (m_worldTransform (upper arm))) hp;
                               hsLen = max (vec3Len handToShoulder) 0.1;
                               st = (if isLeft then st\<lparr>leftArm := arm\<rparr> else st\<lparr>rightArm := arm\<rparr>)
                           in if hsLen > (upperLen + forearmLen) * 2.25 then Inr st
                              else arm_solve lib inp isLeft hp originalUpperLen originalForearmLen
                                     hsLen arm st)))))"

text \<open>
  Whether a call of \<^verbatim>\<open>setArms\<close> returns at one of its guards (lines 1010, 1080 and
  1139) instead of solving the arm.
\<close>

definition setArms_returns_early :: "MatrixLib \<Rightarrow> ArmInput \<Rightarrow> bool \<Rightarrow> ArmsState \<Rightarrow> bool" where
  "setArms_returns_early lib inp isLeft st =
     (if \<not> firstPersonSkeleton inp then True
      else
        (let arm = (if isLeft then leftArm st else rightArm st)
         in case arm_guard inp arm of
              None \<Rightarrow> True
            | Some hp \<Rightarrow>
                (case shoulderIK lib inp hp arm of
                   Inl e \<Rightarrow> False
                 | Inr arm \<Rightarrow>
                     (case arm_originalLens (armInPowerArmor inp) arm of
                        Inl e \<Rightarrow> False
                      | Inr (originalUpperLen, originalForearmLen) \<Rightarrow>
                          max (vec3Len (vsub (pos (m_worldTransform (upper arm))) hp)) 0.1
                            > (originalUpperLen * (armLength inp / 36.74)
                               + originalForearmLen * (armLength inp / 36.74)) * 2.25))))"

text \<open>
  Modelled from the spec: \<^verbatim>\<open>Matrix44::rotateVectorVec(toVec, fromVec)\<close> is declared in
  \<^verbatim>\<open>common/Matrix.h\<close>, which is not among the sources. The solvers use it to rotate a
  bone from its forward vector to a target direction: it is the rotation about the
  axis perpendicular to both vectors that turns the direction of \<open>fromVec\<close> into the
  direction of \<open>toVec\<close>. It serves to run the shoulder adjustment on an example.
\<close>

definition vec3Cross :: "NiPoint3 \<Rightarrow> NiPoint3 \<Rightarrow> NiPoint3" where
  "vec3Cross a b =
     NiPoint3 (vy a * vz b - vz a * vy b) (vz a * vx b - vx a * vz b) (vx a * vy b - vy a * vx b)"

definition rotation_between :: "NiPoint3 \<Rightarrow> NiPoint3 \<Rightarrow> NiMatrix43" where
  "rotation_between toVec fromVec =
     (let a = vec3Norm fromVec; b = vec3Norm toVec;
          v = vec3Cross a b; k = 1 / (1 + vec3Dot a b); n = vec3Dot v v
      in NiMatrix43
           (NiPoint3 (1 + k * (vx v * vx v - n)) (- vz v + k * (vx v * vy v)) (vy v + k * (vx v * vz v)))
           (NiPoint3 (vz v + k * (vx v * vy v)) (1 + k * (vy v * vy v - n)) (- vx v + k * (vy v * vz v)))
           (NiPoint3 (- vy v + k * (vx v * vz v)) (vx v + k * (vy v * vz v)) (1 + k * (vz v * vz v - n))))"

definition example_arm_lib :: MatrixLib where
  "example_arm_lib = example_matrix_lib\<lparr>rotateVectorVec := rotation_between\<rparr>"

text \<open>
  An arm to run the solver on, stretched out along the x axis: an upper arm of 10
  units and three forearm segments of 2 units each, with the configured arm length
  at 50. The hand target is 20 units to the side of the shoulder joint; in a second
  frame it is 100 units to the side, and in a third its height is NaN.
\<close>

definition example_arm :: ArmNodes where
  "example_arm =
     \<lparr>shoulder = example_node (NiPoint3 0 0 0) (NiPoint3 0 0 0),
      upper = example_node (NiPoint3 3 0 0) (NiPoint3 3 0 0),
      forearm1 = example_node (NiPoint3 10 0 0) (NiPoint3 13 0 0),
      forearm2 = Some (example_node (NiPoint3 2 0 0) (NiPoint3 15 0 0)),
      forearm3 = Some (example_node (NiPoint3 2 0 0) (NiPoint3 17 0 0)),
      hand = example_node (NiPoint3 2 0 0) (NiPoint3 19 0 0),
      shoulderParent_world = \<lparr>rot = mat_id, pos = NiPoint3 0 0 0, scale = 1\<rparr>\<rparr>"

definition example_arms :: ArmsState where
  "example_arms = \<lparr>leftArm = example_arm, rightArm = example_arm, prevAngle = (\<lambda>i. 1)\<rparr>"

definition example_arm_frame :: ArmInput where
  "example_arm_frame =
     \<lparr>firstPersonSkeleton = True,
      handPos = FlPoint3 (Finite 3) (Finite 20) (Finite 0),
      handRot = mat_id, armLength = 50, armInPowerArmor = False,
      forwardDir = NiPoint3 0 1 0, sidewaysRDir = NiPoint3 1 0 0,
      chest_worldPos = NiPoint3 0 0 0, root_localScale = 1\<rparr>"

definition example_arm_frame_far :: ArmInput where
  "example_arm_frame_far = example_arm_frame\<lparr>handPos := FlPoint3 (Finite 3) (Finite 100) (Finite 0)\<rparr>"

definition example_arm_frame_nan :: ArmInput where
  "example_arm_frame_nan = example_arm_frame\<lparr>handPos := FlPoint3 (Finite 3) (Finite 20) NaN\<rparr>"

text \<open>The arm a call works on: \<^verbatim>\<open>isLeft ? _leftArm : _rightArm\<close>.\<close>

definition arm_of :: "bool \<Rightarrow> ArmsState \<Rightarrow> ArmNodes" where
  "arm_of isLeft st = (if isLeft then leftArm st else rightArm st)"

text \<open>
  The rotation the shoulder adjustment gives the clavicle of the example arm when the
  hand target is 100 units to the side: a turn about the z axis that takes the x axis
  to the direction of \<open>(3, 4, 0)\<close>.
\<close>

definition example_shrug :: NiMatrix43 where
  "example_shrug =
     NiMatrix43 (NiPoint3 (3 / 5) (- (4 / 5)) 0) (NiPoint3 (4 / 5) (3 / 5) 0) (NiPoint3 0 0 1)"

section \<open>Properties\<close>

lemma set_finger_local_length [simp]: "length (set_finger_local f ts i) = length ts"
  by (simp add: set_finger_local_def Let_def split: option.splits prod.splits)

lemma set_finger_local_other: "j \<noteq> i \<Longrightarrow> set_finger_local f ts i ! j = ts ! j"
  by (simp add: set_finger_local_def Let_def split: option.splits prod.splits)

lemma set_finger_local_self:
  "i < length ts \<Longrightarrow>
     parPos (set_finger_local f ts i ! i) = parPos (ts ! i)
   \<and> world (set_finger_local f ts i ! i) = world (ts ! i)
   \<and> (refNode (set_finger_local f ts i ! i) = None \<longleftrightarrow> refNode (ts ! i) = None)"
  by (simp add: set_finger_local_def Let_def split: option.splits prod.splits)

lemma propagate_bone_length: "propagate_bone ts i = Inr ts' \<Longrightarrow> length ts' = length ts"
  by (auto simp: propagate_bone_def Let_def split: option.splits sum.splits)

lemma propagate_bone_other: "propagate_bone ts i = Inr ts' \<Longrightarrow> j \<noteq> i \<Longrightarrow> ts' ! j = ts ! j"
  by (auto simp: propagate_bone_def Let_def split: option.splits sum.splits)

lemma propagate_bone_self:
  "propagate_bone ts i = Inr ts' \<Longrightarrow> i < length ts \<Longrightarrow>
     parPos (ts' ! i) = parPos (ts ! i) \<and> refNode (ts' ! i) = refNode (ts ! i)
   \<and> local (ts' ! i) = local (ts ! i)"
  by (auto simp: propagate_bone_def Let_def split: option.splits sum.splits)

lemma propagate_bone_total:
  "i < length ts \<Longrightarrow> (refNode (ts ! i) = None \<longrightarrow> 0 \<le> parPos (ts ! i) \<and> parPos (ts ! i) < int i) \<Longrightarrow>
   \<exists>ts'. propagate_bone ts i = Inr ts'"
  by (auto simp: propagate_bone_def transforms_at_def Let_def split: option.splits sum.splits)

lemma propagate_bone_propagated:
  assumes "propagate_bone ts i = Inr ts'" "i < length ts" "refNode (ts ! i) = None"
    "0 \<le> parPos (ts ! i)" "parPos (ts ! i) < int i"
  shows "propagated ts' i (nat (parPos (ts ! i)))"
  using assms
  by (auto simp: propagate_bone_def transforms_at_def propagated_def multiply43Left_def Let_def
      split: option.splits sum.splits)


lemma setHandPose_body_facts:
  assumes "setHandPose_body f ts i = Inr ts'" "i < length ts"
  shows "length ts' = length ts"
    and "\<And>j. j \<noteq> i \<Longrightarrow> ts' ! j = ts ! j"
    and "parPos (ts' ! i) = parPos (ts ! i)"
    and "refNode (ts' ! i) = None \<longleftrightarrow> refNode (ts ! i) = None"
proof -
  let ?t1 = "set_finger_local f ts i"
  from assms have p: "propagate_bone ?t1 i = Inr ts'"
    by (simp add: setHandPose_body_def)
  show "length ts' = length ts"
    using propagate_bone_length [OF p] by simp
  show "\<And>j. j \<noteq> i \<Longrightarrow> ts' ! j = ts ! j"
    using propagate_bone_other [OF p] set_finger_local_other by simp
  have s: "i < length ?t1" using assms(2) by simp
  show "parPos (ts' ! i) = parPos (ts ! i)"
    using propagate_bone_self [OF p s] set_finger_local_self [OF assms(2)] by simp
  show "refNode (ts' ! i) = None \<longleftrightarrow> refNode (ts ! i) = None"
    using propagate_bone_self [OF p s] set_finger_local_self [OF assms(2), of f] by simp
qed

lemma setHandPose_body_total:
  assumes "i < length ts"
    "refNode (ts ! i) = None \<longrightarrow> 0 \<le> parPos (ts ! i) \<and> parPos (ts ! i) < int i"
  shows "\<exists>ts'. setHandPose_body f ts i = Inr ts'"
  unfolding setHandPose_body_def
  using assms set_finger_local_self [OF assms(1), of f]
  by (intro propagate_bone_total) simp_all

lemma setHandPose_body_propagated:
  assumes "setHandPose_body f ts i = Inr ts'" "i < length ts" "refNode (ts ! i) = None"
    "0 \<le> parPos (ts ! i)" "parPos (ts ! i) < int i"
  shows "propagated ts' i (nat (parPos (ts ! i)))"
proof -
  let ?t1 = "set_finger_local f ts i"
  from assms have p: "propagate_bone ?t1 i = Inr ts'"
    by (simp add: setHandPose_body_def)
  have s: "i < length ?t1" using assms(2) by simp
  have "propagated ts' i (nat (parPos (?t1 ! i)))"
    using set_finger_local_self [OF assms(2), of f] assms(3-5)
    by (intro propagate_bone_propagated [OF p s]) simp_all
  then show ?thesis
    using set_finger_local_self [OF assms(2), of f] by simp
qed

lemma topological_step:
  assumes "topological ts" "setHandPose_body f ts i = Inr ts'" "i < length ts"
  shows "topological ts'"
  unfolding topological_def
proof (intro allI impI)
  fix j assume j: "j < length ts'" and r: "refNode (ts' ! j) = None"
  note facts = setHandPose_body_facts [OF assms(2,3)]
  have jl: "j < length ts" using j facts(1) by simp
  show "0 \<le> parPos (ts' ! j) \<and> parPos (ts' ! j) < int j"
  proof (cases "j = i")
    case True
    with r facts(3,4) assms(1) jl show ?thesis by (simp add: topological_def)
  next
    case False
    with r facts(2) [of j] assms(1) jl show ?thesis by (simp add: topological_def)
  qed
qed

lemma setHandPose_loop_invariant:
  assumes "topological ts" "n = length ts" "k \<le> n"
  shows "\<exists>ts'. setHandPose_loop f [k..<n] ts = Inr ts' \<and> length ts' = n
           \<and> (\<forall>j < k. ts' ! j = ts ! j)
           \<and> (\<forall>i < n. parPos (ts' ! i) = parPos (ts ! i)
                      \<and> (refNode (ts' ! i) = None \<longleftrightarrow> refNode (ts ! i) = None))
           \<and> (\<forall>i. k \<le> i \<and> i < n \<and> refNode (ts ! i) = None
                  \<longrightarrow> propagated ts' i (nat (parPos (ts ! i))))"
  using assms
proof (induction "n - k" arbitrary: k ts)
  case 0
  then have "k = n" by simp
  with "0.prems" show ?case by auto
next
  case (Suc m)
  then have kn: "k < n" and kl: "k < length ts" by simp_all
  have top_k: "refNode (ts ! k) = None \<longrightarrow> 0 \<le> parPos (ts ! k) \<and> parPos (ts ! k) < int k"
    using Suc.prems(1) kl by (simp add: topological_def)
  obtain ts1 where b: "setHandPose_body f ts k = Inr ts1"
    using setHandPose_body_total [OF kl top_k] by blast
  note facts = setHandPose_body_facts [OF b kl]
  have top1: "topological ts1" by (rule topological_step [OF Suc.prems(1) b kl])
  have m: "m = n - Suc k" using Suc.hyps(2) by simp
  have len1: "n = length ts1" using facts(1) Suc.prems(2) by simp
  have sk: "Suc k \<le> n" using kn by simp
  from Suc.hyps(1) [OF m top1 len1 sk]
  obtain ts' where l: "setHandPose_loop f [Suc k..<n] ts1 = Inr ts'"
    and len: "length ts' = n"
    and keep: "\<forall>j < Suc k. ts' ! j = ts1 ! j"
    and same: "\<forall>i < n. parPos (ts' ! i) = parPos (ts1 ! i)
                 \<and> (refNode (ts' ! i) = None \<longleftrightarrow> refNode (ts1 ! i) = None)"
    and props: "\<forall>i. Suc k \<le> i \<and> i < n \<and> refNode (ts1 ! i) = None
                 \<longrightarrow> propagated ts' i (nat (parPos (ts1 ! i)))"
    by blast
  have run: "setHandPose_loop f [k..<n] ts = Inr ts'"
    using kn b l by (simp add: upt_conv_Cons)
  have other: "\<And>j. j \<noteq> k \<Longrightarrow> ts1 ! j = ts ! j" by (rule facts(2))
  have keep': "\<forall>j < k. ts' ! j = ts ! j"
    using keep other by simp
  have same': "\<forall>i < n. parPos (ts' ! i) = parPos (ts ! i)
                 \<and> (refNode (ts' ! i) = None \<longleftrightarrow> refNode (ts ! i) = None)"
  proof (intro allI impI)
    fix i assume "i < n"
    with same have s: "parPos (ts' ! i) = parPos (ts1 ! i)
        \<and> (refNode (ts' ! i) = None \<longleftrightarrow> refNode (ts1 ! i) = None)" by simp
    show "parPos (ts' ! i) = parPos (ts ! i)
        \<and> (refNode (ts' ! i) = None \<longleftrightarrow> refNode (ts ! i) = None)"
    proof (cases "i = k")
      case True
      with s facts(3,4) show ?thesis by simp
    next
      case False
      with s other [of i] show ?thesis by simp
    qed
  qed
  have prop': "\<forall>i. k \<le> i \<and> i < n \<and> refNode (ts ! i) = None
                 \<longrightarrow> propagated ts' i (nat (parPos (ts ! i)))"
  proof (intro allI impI)
    fix i assume a: "k \<le> i \<and> i < n \<and> refNode (ts ! i) = None"
    show "propagated ts' i (nat (parPos (ts ! i)))"
    proof (cases "i = k")
      case True
      with a top_k have pk: "0 \<le> parPos (ts ! k)" "parPos (ts ! k) < int k" "refNode (ts ! k) = None"
        by simp_all
      have p1: "propagated ts1 k (nat (parPos (ts ! k)))"
        by (rule setHandPose_body_propagated [OF b kl pk(3) pk(1) pk(2)])
      have "nat (parPos (ts ! k)) < Suc k" using pk by linarith
      with keep have "ts' ! nat (parPos (ts ! k)) = ts1 ! nat (parPos (ts ! k))" by blast
      moreover from keep have "ts' ! k = ts1 ! k" by simp
      ultimately show ?thesis using p1 True by (simp add: propagated_def)
    next
      case False
      with a have "Suc k \<le> i \<and> i < n \<and> refNode (ts1 ! i) = None"
        using other [of i] by simp
      with props have "propagated ts' i (nat (parPos (ts1 ! i)))" by blast
      with False other [of i] show ?thesis by simp
    qed
  qed
  from run len keep' same' prop' show ?case by blast
qed

lemma setHandPose_propagated:
  assumes "topological ts"
  shows "\<exists>ts'. setHandPose f ts = Inr ts' \<and> length ts' = length ts
           \<and> (\<forall>i < length ts. refNode (ts ! i) = None
                  \<longrightarrow> propagated ts' i (nat (parPos (ts ! i))))"
  using setHandPose_loop_invariant [OF assms refl, of 0 f]
  unfolding setHandPose_def by auto

lemma rotateLeg_propagated:
  assumes "i < length ts" "0 \<le> parPos (ts ! i)" "parPos (ts ! i) < int (length ts)"
    "parPos (ts ! i) \<noteq> int i"
  shows "\<exists>ts'. rotateLeg ts i r = Inr ts' \<and> length ts' = length ts
           \<and> rot (local (ts' ! i)) = mat_mul (rot (local (ts ! i))) r
           \<and> propagated ts' i (nat (parPos (ts ! i)))"
proof -
  have ne: "nat (parPos (ts ! i)) \<noteq> i" using assms(2,4) by linarith
  have lt: "nat (parPos (ts ! i)) < length ts" using assms(2,3) by linarith
  show ?thesis
    using assms ne lt
    by (simp add: rotateLeg_def transforms_at_def Let_def propagated_def multiply43Left_def)
qed


text \<open>
  Claim C1. After the pass of \<^verbatim>\<open>setHandPose\<close> over a flattened tree in which every
  bone without a scene node has its parent at a smaller index, the pass has run to
  its end, and every such bone has the world position
  \<^verbatim>\<open>parent.world.pos + parent.world.rot * (local.pos * parent.world.scale)\<close> and the world
  rotation \<^verbatim>\<open>parent.world.rot * local.rot\<close>, read in the array the pass returns, with
  the parent entry at the bone's \<^verbatim>\<open>parPos\<close>. \<^verbatim>\<open>rotateLeg\<close> leaves the entry it turns
  in the same relation to its parent entry, for any parent index in range other than
  the entry's own.
\<close>

theorem propagation_correct:
  "(topological ts \<longrightarrow>
      (\<exists>ts'. setHandPose finger ts = Inr ts' \<and> length ts' = length ts
         \<and> (\<forall>i < length ts. refNode (ts ! i) = None
                \<longrightarrow> propagated ts' i (nat (parPos (ts ! i))))))
   \<and> (k < length ts \<and> 0 \<le> parPos (ts ! k) \<and> parPos (ts ! k) < int (length ts)
        \<and> parPos (ts ! k) \<noteq> int k \<longrightarrow>
      (\<exists>ts'. rotateLeg ts k r = Inr ts' \<and> length ts' = length ts
         \<and> rot (local (ts' ! k)) = mat_mul (rot (local (ts ! k))) r
         \<and> propagated ts' k (nat (parPos (ts ! k)))))"
  using setHandPose_propagated [of ts finger] rotateLeg_propagated [of k ts r]
  by blast

lemma example_tree_topological: "topological example_tree"
  by (simp add: topological_def example_tree_def All_less_Suc)

theorem propagation_correct_witness:
  "topological example_tree
   \<and> (\<exists>ts'. setHandPose (\<lambda>i. None) example_tree = Inr ts' \<and> length ts' = length example_tree
         \<and> (\<forall>i < length example_tree. refNode (example_tree ! i) = None
                \<longrightarrow> propagated ts' i (nat (parPos (example_tree ! i)))))
   \<and> 2 < length example_tree \<and> 0 \<le> parPos (example_tree ! 2)
   \<and> parPos (example_tree ! 2) < int (length example_tree)
   \<and> parPos (example_tree ! 2) \<noteq> int 2
   \<and> (\<exists>ts'. rotateLeg example_tree 2 mat_id = Inr ts' \<and> length ts' = length example_tree
         \<and> rot (local (ts' ! 2)) = mat_mul (rot (local (example_tree ! 2))) mat_id
         \<and> propagated ts' 2 (nat (parPos (example_tree ! 2))))"
proof -
  have h: "2 < length example_tree \<and> 0 \<le> parPos (example_tree ! 2)
      \<and> parPos (example_tree ! 2) < int (length example_tree)
      \<and> parPos (example_tree ! 2) \<noteq> int 2"
    by (simp add: example_tree_def)
  show ?thesis
    using propagation_correct [of example_tree "\<lambda>i. None" 2 mat_id] example_tree_topological h
    by blast
qed


lemma clamp_bounds: "lo \<le> hi \<Longrightarrow> lo \<le> clamp v lo hi \<and> clamp v lo hi \<le> hi"
  by (simp add: clamp_def)

lemma vec3Len_nonneg: "0 \<le> vec3Len v"
  by (simp add: vec3Len_def)

lemma walk_feet_prevSpeed [simp]: "prevSpeed (walk_feet inp s) = prevSpeed s"
  by (simp add: walk_feet_def Let_def)

lemma walk_feet_walkingState [simp]: "walkingState (walk_feet inp s) = walkingState s"
  by (simp add: walk_feet_def Let_def)

lemma walk_curSpeed_feet [simp]: "walk_curSpeed inp (walk_feet inp s) = walk_curSpeed inp s"
  by (simp add: walk_curSpeed_def Let_def)

lemma walk_decel_prevSpeed [simp]: "prevSpeed (walk_decel c s) = c"
  by (simp add: walk_decel_def Let_def)

lemma walk_decel_walkingState:
  "walkingState (walk_decel c s) = (if c - prevSpeed s < - 20 then 3 else walkingState s)"
  by (simp add: walk_decel_def Let_def)

lemma walk_switch_prevSpeed [simp]: "prevSpeed (walk_switch inp c t d s) = prevSpeed s"
  by (simp add: walk_switch_def Let_def)


lemma walk_delay_keeps [simp]:
  "walkingState (walk_delay r off d dot s) = walkingState s"
  "prevSpeed (walk_delay r off d dot s) = prevSpeed s"
  by (simp_all add: walk_delay_def)

lemma walk_foot_keeps [simp]:
  "walkingState (walk_foot r inp i s) = walkingState s"
  "prevSpeed (walk_foot r inp i s) = prevSpeed s"
  by (simp_all add: walk_foot_def Let_def)

lemma walk_step_keeps [simp]:
  "walkingState (walk_step E inp c t d s) = walkingState s"
  "prevSpeed (walk_step E inp c t d s) = prevSpeed s"
  by (simp_all add: walk_step_def Let_def)

lemma walk_advance_prevSpeed [simp]: "prevSpeed (walk_advance E inp c t d s) = prevSpeed s"
  by (simp add: walk_advance_def)


lemma walk_machine_prevSpeed [simp]: "prevSpeed (walk_machine inp s) = walk_curSpeed inp s"
  by (simp add: walk_machine_def Let_def)





lemma vec3Len_x: "vec3Len (NiPoint3 a 0 0) = \<bar>a\<bar>"
  by (simp add: vec3Len_def)

lemma example_speed: "walk_curSpeed (walk_example_frame\<lparr>jumpingOrInAir := b\<rparr>) walk_example_state = 40"
  by (simp add: walk_curSpeed_def walk_rawDir_def walk_example_frame_def walk_example_state_def
      set_z_def vsub_def vec3Len_x clamp_def)







text \<open>
  Claim C6, as stated, fails on a frame on which the player is jumping or in the air:
  from Idle, at speed 40, the state machine stays in Idle and picks no stepping side.
\<close>

theorem walk_idle_in_air_counterexample:
  "walkingState walk_example_state = 0
   \<and> walk_curSpeed (walk_example_frame\<lparr>jumpingOrInAir := True\<rparr>) walk_example_state = 40
   \<and> walkingState (walk_machine (walk_example_frame\<lparr>jumpingOrInAir := True\<rparr>) walk_example_state) = 0
   \<and> footStepping (walk_machine (walk_example_frame\<lparr>jumpingOrInAir := True\<rparr>) walk_example_state) = 0"
  by (simp add: example_speed)
     (simp add: walk_machine_def walk_switch_def walk_decel_def Let_def walk_example_frame_def
        walk_example_state_def)

text \<open>
  Claim C6, amended. While the player is jumping or in the air the state is reset to
  Idle. Otherwise, a speed that fell by more than 20 since the last frame selects
  Redirecting whatever the state was: the stepping side is kept, the target of that
  foot (the right foot for side 1, the left foot for any other) becomes the foot's
  position plus direction * speed * stepTime * 0.1, and the state is Walking. Otherwise,
  Idle at a speed of 35 or more enters Walking, picks a side, sets the target of that
  foot to its position plus direction * speed * stepTime * 1.5 and the step timer to half
  the step time, and stays Idle below 35; Walking enters Stopping below 20; Stopping
  enters Walking at 20 or more.
\<close>

theorem walk_machine_transitions:
  "(let c = walk_curSpeed inp s; t = walk_stepTime c; d = walk_dir inp; s' = walk_machine inp s
    in (jumpingOrInAir inp \<longrightarrow> walkingState s' = 0)
     \<and> (\<not> jumpingOrInAir inp \<and> c - prevSpeed s < - 20 \<longrightarrow>
          walkingState s' = 1 \<and> footStepping s' = footStepping s
        \<and> (if footStepping s = 1
            then rightFootTarget s' = vadd (rFootWorldPos s) (vscale d (c * t * 0.1))
               \<and> leftFootTarget s' = leftFootTarget s
            else leftFootTarget s' = vadd (lFootWorldPos s) (vscale d (c * t * 0.1))
               \<and> rightFootTarget s' = rightFootTarget s))
     \<and> (\<not> jumpingOrInAir inp \<and> \<not> c - prevSpeed s < - 20 \<longrightarrow>
          (walkingState s = 0 \<and> c \<ge> 35 \<longrightarrow>
             walkingState s' = 1 \<and> footStepping s' = randValue inp mod 2 + 1
           \<and> (if footStepping s' = 1
               then rightFootTarget s' = vadd (rFootWorldPos s) (vscale d (c * t * 1.5))
                  \<and> leftFootTarget s' = lFootWorldPos s
               else leftFootTarget s' = vadd (lFootWorldPos s) (vscale d (c * t * 1.5))
                  \<and> rightFootTarget s' = rFootWorldPos s)
           \<and> currentStepTime s' = t / 2)
        \<and> (walkingState s = 0 \<and> c < 35 \<longrightarrow> walkingState s' = 0)
        \<and> (walkingState s = 1 \<and> c < 20 \<longrightarrow> walkingState s' = 2)
        \<and> (walkingState s = 1 \<and> c \<ge> 20 \<longrightarrow> walkingState s' = 1)
        \<and> (walkingState s = 2 \<and> c \<ge> 20 \<longrightarrow> walkingState s' = 1)
        \<and> (walkingState s = 2 \<and> c < 20 \<longrightarrow> walkingState s' = 2)))"
  by (simp add: walk_machine_def walk_switch_def walk_decel_def Let_def)

theorem walk_machine_transitions_witness:
  "\<not> jumpingOrInAir walk_example_frame
   \<and> \<not> walk_curSpeed walk_example_frame walk_example_state - prevSpeed walk_example_state < - 20
   \<and> walkingState walk_example_state = 0
   \<and> walk_curSpeed walk_example_frame walk_example_state \<ge> 35
   \<and> walkingState (walk_machine walk_example_frame walk_example_state) = 1
   \<and> footStepping (walk_machine walk_example_frame walk_example_state) = 2
   \<and> leftFootTarget (walk_machine walk_example_frame walk_example_state) =
       vadd (NiPoint3 0 (- 10) 0) (vscale (walk_dir walk_example_frame) (40 * walk_stepTime 40 * 1.5))
   \<and> currentStepTime (walk_machine walk_example_frame walk_example_state) = walk_stepTime 40 / 2
   \<and> \<not> walk_curSpeed (walk_example_frame\<lparr>curentPosition := NiPoint3 0 0 0\<rparr>)
           (walk_example_state\<lparr>walkingState := 1\<rparr>)
         - prevSpeed (walk_example_state\<lparr>walkingState := 1\<rparr>) < - 20
   \<and> walkingState (walk_example_state\<lparr>walkingState := 1\<rparr>) = 1
   \<and> walk_curSpeed (walk_example_frame\<lparr>curentPosition := NiPoint3 0 0 0\<rparr>)
         (walk_example_state\<lparr>walkingState := 1\<rparr>) < 20
   \<and> walkingState (walk_machine (walk_example_frame\<lparr>curentPosition := NiPoint3 0 0 0\<rparr>)
         (walk_example_state\<lparr>walkingState := 1\<rparr>)) = 2
   \<and> walk_curSpeed walk_example_frame
         (walk_example_state\<lparr>walkingState := 1, prevSpeed := 100, footStepping := 1\<rparr>)
         - prevSpeed (walk_example_state\<lparr>walkingState := 1, prevSpeed := 100, footStepping := 1\<rparr>) < - 20
   \<and> walkingState (walk_machine walk_example_frame
         (walk_example_state\<lparr>walkingState := 1, prevSpeed := 100, footStepping := 1\<rparr>)) = 1
   \<and> rightFootTarget (walk_machine walk_example_frame
         (walk_example_state\<lparr>walkingState := 1, prevSpeed := 100, footStepping := 1\<rparr>)) =
       vadd (NiPoint3 0 10 0) (vscale (walk_dir walk_example_frame) (70 * walk_stepTime 70 * 0.1))"
proof -
  let ?f0 = "walk_example_frame\<lparr>curentPosition := NiPoint3 0 0 0\<rparr>"
  let ?s1 = "walk_example_state\<lparr>walkingState := 1\<rparr>"
  let ?s2 = "walk_example_state\<lparr>walkingState := 1, prevSpeed := 100, footStepping := 1\<rparr>"
  have c: "walk_curSpeed walk_example_frame walk_example_state = 40"
    using example_speed [of False] by (simp add: walk_example_frame_def)
  have c1: "walk_curSpeed ?f0 ?s1 = 0"
    by (simp add: walk_curSpeed_def walk_rawDir_def walk_example_frame_def walk_example_state_def
        set_z_def vsub_def vec3Len_x clamp_def)
  have c2: "walk_curSpeed walk_example_frame ?s2 = 70"
    by (simp add: walk_curSpeed_def walk_rawDir_def walk_example_frame_def walk_example_state_def
        set_z_def vsub_def vec3Len_x clamp_def)
  have h: "\<not> jumpingOrInAir walk_example_frame" "prevSpeed walk_example_state = 0"
    "walkingState walk_example_state = 0" "randValue walk_example_frame = 1"
    "lFootWorldPos walk_example_state = NiPoint3 0 (- 10) 0"
    "\<not> jumpingOrInAir ?f0" "prevSpeed ?s1 = 0" "walkingState ?s1 = 1"
    "prevSpeed ?s2 = 100" "footStepping ?s2 = 1" "rFootWorldPos ?s2 = NiPoint3 0 10 0"
    by (simp_all add: walk_example_frame_def walk_example_state_def)
  show ?thesis
    using walk_machine_transitions [of walk_example_frame walk_example_state]
      walk_machine_transitions [of ?f0 ?s1] walk_machine_transitions [of walk_example_frame ?s2]
    unfolding Let_def c c1 c2
    by (simp add: h)
qed

lemma thumb_middle_bones:
  "filter (\<lambda>b. str_find b ''Finger1'' \<noteq> None \<and> str_find b ''Finger11'' = None
                \<and> str_find b ''Finger13'' = None) fingerBones
   = [''LArm_Finger12'', ''RArm_Finger12'']"
  by (simp add: fingerBones_def str_find_def)

text \<open>
  Claim C10. With the thumbs-up combination active and no external override on the
  bone, a bone whose name contains \<^verbatim>\<open>Finger1\<close> but neither \<^verbatim>\<open>Finger11\<close> nor
  \<^verbatim>\<open>Finger13\<close> is blended towards the default-constructed quaternion, whatever its
  open pose and closed pose are, and the call stores that blend in \<^verbatim>\<open>_handBones\<close>.
\<close>

theorem thumb_middle_bone_target:
  assumes "thumbUp" "\<not> handPapyrusHasControl st bone"
    "str_find bone ''Finger1'' \<noteq> None" "str_find bone ''Finger11'' = None"
    "str_find bone ''Finger13'' = None"
  shows "handPoseTarget lib st bone gripProx thumbUp isLeft = Inr (Quaternion lib)
    \<and> calculateHandPose lib dt st bone gripProx thumbUp isLeft =
        Inr (st\<lparr>handBones := (handBones st)(bone := (handBones st bone)
               \<lparr>rot := getRot lib (slerp lib (fromRot lib (rot (handBones st bone)))
                                    (clamp (dt * 7) 0 1) (Quaternion lib))\<rparr>)\<rparr>)"
  using assms by (simp add: handPoseTarget_def calculateHandPose_def Let_def)

theorem thumb_middle_bone_target_witness:
  "True \<and> \<not> handPapyrusHasControl example_hand ''LArm_Finger12''
   \<and> str_find ''LArm_Finger12'' ''Finger1'' \<noteq> None
   \<and> str_find ''LArm_Finger12'' ''Finger11'' = None
   \<and> str_find ''LArm_Finger12'' ''Finger13'' = None
   \<and> handPoseTarget example_lib example_hand ''LArm_Finger12'' 0 True True = Inr (Quaternion example_lib)
   \<and> calculateHandPose example_lib (1 / 90) example_hand ''LArm_Finger12'' 0 True True =
        Inr (example_hand\<lparr>handBones := (handBones example_hand)(''LArm_Finger12'' :=
               (handBones example_hand ''LArm_Finger12'')
               \<lparr>rot := getRot example_lib (slerp example_lib
                          (fromRot example_lib (rot (handBones example_hand ''LArm_Finger12'')))
                          (clamp (1 / 90 * 7) 0 1) (Quaternion example_lib))\<rparr>)\<rparr>)"
proof -
  have h: "\<not> handPapyrusHasControl example_hand ''LArm_Finger12''"
    "str_find ''LArm_Finger12'' ''Finger1'' \<noteq> None"
    "str_find ''LArm_Finger12'' ''Finger11'' = None"
    "str_find ''LArm_Finger12'' ''Finger13'' = None"
    by (simp_all add: example_hand_def str_find_def)
  show ?thesis
    using thumb_middle_bone_target [OF TrueI h, of example_lib 0 True "1 / 90"] h
    by blast
qed

lemma sqrt_less_10: "sqrt x < 10 \<longleftrightarrow> x < 100"
proof -
  have "sqrt 100 = 10" by (rule real_sqrt_unique) simp_all
  then show ?thesis using real_sqrt_less_iff [of x 100] by simp
qed

lemma sqrt_2500: "sqrt 2500 = 50"
  by (rule real_sqrt_unique) simp_all

lemma degreesToRads_order: "degreesToRads (- 50) \<le> degreesToRads 50"
  by (simp add: degreesToRads_def)

lemma lower_weight: "0 \<le> w \<Longrightarrow> w \<le> 1 \<Longrightarrow> d \<ge> 0 \<Longrightarrow> 0 \<le> max (w - d) 0 \<and> max (w - d) 0 \<le> (1::real)"
  by (simp add: max_def)

lemma neckYaw_weight_range: "0 \<le> neckYaw_weight n \<and> neckYaw_weight n \<le> 1"
proof -
  define w1 where "w1 = (if vz (hmdToLeft n) > 0 then max (1 - 0.05 * vz (hmdToLeft n)) 0 else 1)"
  define w2 where "w2 = (if vz (hmdToRight n) > 0 then max (w1 - 0.05 * vz (hmdToRight n)) 0 else w1)"
  define l where "l = vx (mat_vec (Transpose (HmdNode_worldRot n)) (hmdToLeft n))"
  define r where "r = vx (mat_vec (Transpose (HmdNode_worldRot n)) (hmdToRight n))"
  have 1: "0 \<le> w1 \<and> w1 \<le> 1"
    unfolding w1_def using lower_weight [of 1 "0.05 * vz (hmdToLeft n)"] by simp
  have 2: "0 \<le> w2 \<and> w2 \<le> 1"
    unfolding w2_def using 1 lower_weight [of w1 "0.05 * vz (hmdToRight n)"] by simp
  have 3: "neckYaw_weight n = (if l > r then max (w2 + 0.02 * (r - l)) 0 else w2)"
    by (simp add: neckYaw_weight_def Let_def w1_def w2_def l_def r_def)
  show ?thesis
    unfolding 3 using 2 by (auto simp: max_def diff_divide_distrib)
qed

lemma clamp_mid: "lo \<le> v \<Longrightarrow> v \<le> hi \<Longrightarrow> clamp v lo hi = v"
  by (simp add: clamp_def)

lemma clamp_low: "v < lo \<Longrightarrow> clamp v lo hi = lo"
  by (simp add: clamp_def)

lemma example_nodes_lengths:
  "\<not> vec3Len (hmdToLeft example_nodes) < 10" "\<not> vec3Len (hmdToRight example_nodes) < 10"
  "vec3Len (hmdToLeft example_nodes_near) < 10"
  by (simp_all add: example_nodes_def example_nodes_near_def hmdToLeft_def hmdToRight_def
      vsub_def vec3Len_def sqrt_less_10)

lemma example_nodes_weight: "neckYaw_weight example_nodes = 1 / 2"
  by (simp add: neckYaw_weight_def example_nodes_def hmdToLeft_def hmdToRight_def vsub_def
      Let_def mat_vec_def Transpose_def mat_id_def vec3Dot_def)

lemma example_nodes_angle: "neckYaw_angleFinal example_nodes = pi / 2"
proof -
  have s: "vec3Norm (NiPoint3 30 0 (- 40)) = NiPoint3 (3 / 5) 0 (- (4 / 5))"
    by (simp add: vec3Norm_def vec3Len_def vdiv_def sqrt_2500)
  have u: "vec3Norm (NiPoint3 (3 / 5) 0 (- (4 / 5))) = NiPoint3 (3 / 5) 0 (- (4 / 5))"
  proof -
    have "(3 / 5) * (3 / 5) + 0 * 0 + (- (4 / 5)) * (- (4 / 5)) = (1::real)" by simp
    then have "vec3Len (NiPoint3 (3 / 5) 0 (- (4 / 5))) = 1"
      unfolding vec3Len_def NiPoint3.sel by (simp only: real_sqrt_one)
    then show ?thesis by (simp add: vec3Norm_def vdiv_def)
  qed
  have h: "vec3Norm (NiPoint3 0 (- 1) 0) = NiPoint3 0 (- 1) 0"
    by (simp add: vec3Norm_def vec3Len_def vdiv_def)
  have i: "mat_vec (Transpose mat_id) v = v" for v
    by (cases v) (simp add: mat_vec_def Transpose_def mat_id_def vec3Dot_def)
  have sum: "vadd (hmdToRight example_nodes) (hmdToLeft example_nodes) = NiPoint3 30 0 (- 40)"
    by (simp add: example_nodes_def hmdToLeft_def hmdToRight_def vsub_def vadd_def)
  have r: "HmdNode_worldRot example_nodes = mat_id" "HmdNode_localPos example_nodes = NiPoint3 0 (- 1) 0"
    by (simp_all add: example_nodes_def)
  show ?thesis
    unfolding neckYaw_angleFinal_def sum r i s u h Let_def
    by (simp add: atan2f_def degreesToRads_def)
qed

text \<open>
  Claim C8, as stated, fails where the weight is below one and the yaw angle beyond
  50 degrees: with the left hand ten units above the head the weight is one half and
  the angle is 90 degrees, the code returns minus 45 degrees, and clamping before
  scaling would give minus 25 degrees.
\<close>

theorem getNeckYaw_clamp_order_counterexample:
  "getNeckYaw (Some example_nodes) = - (pi / 4)
   \<and> spec_neckYaw example_nodes = - (5 * pi / 36)
   \<and> getNeckYaw (Some example_nodes) \<noteq> spec_neckYaw example_nodes"
proof -
  have "degreesToRads (- 50) \<le> - (pi / 2) * (1 / 2)" "- (pi / 2) * (1 / 2) \<le> degreesToRads 50"
    unfolding degreesToRads_def using pi_gt_zero by linarith+
  then have "clamp (- (pi / 2) * (1 / 2)) (degreesToRads (- 50)) (degreesToRads 50) = - (pi / 4)"
    using clamp_mid by simp
  then have a: "getNeckYaw (Some example_nodes) = - (pi / 4)"
    by (simp add: getNeckYaw_def example_nodes_lengths example_nodes_weight example_nodes_angle)
  have "- (pi / 2) < degreesToRads (- 50)"
    unfolding degreesToRads_def using pi_gt_zero by linarith
  then have "clamp (- (pi / 2)) (degreesToRads (- 50)) (degreesToRads 50) * (1 / 2) = - (5 * pi / 36)"
    using clamp_low by (simp add: degreesToRads_def)
  then have b: "spec_neckYaw example_nodes = - (5 * pi / 36)"
    by (simp add: spec_neckYaw_def example_nodes_weight example_nodes_angle)
  have c: "- (pi / 4) \<noteq> - (5 * pi / 36)"
    using pi_gt_zero by linarith
  show ?thesis unfolding a b using c by simp
qed

text \<open>
  Claim C8, amended. \<^verbatim>\<open>getNeckYaw\<close> returns 0 when the player nodes are missing or
  when either vector from the head to a controller is shorter than 10 units.
  Otherwise its result is the negated yaw angle scaled by the weight and then clamped
  to 50 degrees either way. The weight lies between 0 and 1, and for every input the
  result lies within 50 degrees either way.
\<close>

theorem getNeckYaw_result:
  "getNeckYaw None = 0
   \<and> (vec3Len (hmdToLeft n) < 10 \<or> vec3Len (hmdToRight n) < 10 \<longrightarrow> getNeckYaw (Some n) = 0)
   \<and> (\<not> (vec3Len (hmdToLeft n) < 10 \<or> vec3Len (hmdToRight n) < 10) \<longrightarrow>
        getNeckYaw (Some n) =
          clamp (- neckYaw_angleFinal n * neckYaw_weight n) (degreesToRads (- 50)) (degreesToRads 50))
   \<and> 0 \<le> neckYaw_weight n \<and> neckYaw_weight n \<le> 1
   \<and> degreesToRads (- 50) \<le> getNeckYaw p \<and> getNeckYaw p \<le> degreesToRads 50"
proof -
  have z: "degreesToRads (- 50) \<le> 0 \<and> 0 \<le> degreesToRads 50"
    by (simp add: degreesToRads_def)
  have "degreesToRads (- 50) \<le> getNeckYaw p \<and> getNeckYaw p \<le> degreesToRads 50"
    using z clamp_bounds [OF degreesToRads_order]
    by (simp add: getNeckYaw_def split: option.splits)
  then show ?thesis
    using neckYaw_weight_range [of n] by (simp add: getNeckYaw_def)
qed

theorem getNeckYaw_result_witness:
  "(vec3Len (hmdToLeft example_nodes_near) < 10 \<or> vec3Len (hmdToRight example_nodes_near) < 10)
   \<and> getNeckYaw (Some example_nodes_near) = 0
   \<and> \<not> (vec3Len (hmdToLeft example_nodes) < 10 \<or> vec3Len (hmdToRight example_nodes) < 10)
   \<and> getNeckYaw (Some example_nodes) =
       clamp (- neckYaw_angleFinal example_nodes * neckYaw_weight example_nodes)
         (degreesToRads (- 50)) (degreesToRads 50)
   \<and> degreesToRads (- 50) \<le> getNeckYaw (Some example_nodes)
   \<and> getNeckYaw (Some example_nodes) \<le> degreesToRads 50"
  using getNeckYaw_result [of example_nodes_near "Some example_nodes"]
    getNeckYaw_result [of example_nodes "Some example_nodes"] example_nodes_lengths
  by blast

lemma vec3Len_vscale: "vec3Len (vscale v k) = \<bar>k\<bar> * vec3Len v"
proof -
  have "vx v * k * (vx v * k) + vy v * k * (vy v * k) + vz v * k * (vz v * k)
      = k\<^sup>2 * (vx v * vx v + vy v * vy v + vz v * vz v)"
    by (simp add: power2_eq_square algebra_simps)
  then show ?thesis
    by (simp add: vec3Len_def vscale_def real_sqrt_mult)
qed

lemma vec3Len_vdiv: "vec3Len (vdiv v k) = vec3Len v / \<bar>k\<bar>"
proof -
  have "vdiv v k = vscale v (1 / k)" by (simp add: vdiv_def vscale_def)
  then show ?thesis by (simp add: vec3Len_vscale)
qed

lemma vec3Len_vec3Norm: "vec3Len v \<noteq> 0 \<Longrightarrow> vec3Len (vec3Norm v) = 1"
  using vec3Len_nonneg [of v] by (simp add: vec3Norm_def vec3Len_vdiv)


lemma cosineLaw_Some:
  fixes a b c :: real
  assumes "0 < b" "0 < c" "\<bar>c - b\<bar> \<le> \<bar>a\<bar>" "\<bar>a\<bar> \<le> b + c"
  shows "cosineLaw b c a = Some (arccos ((b * b + c * c - a * a) / (2 * b * c)))"
proof -
  have d: "0 < 2 * b * c" using assms by simp
  have "(c - b)\<^sup>2 \<le> a\<^sup>2" using assms(3) by (simp add: abs_le_square_iff)
  then have u: "b * b + c * c - a * a \<le> 2 * b * c"
    by (simp add: power2_eq_square algebra_simps)
  have "\<bar>a\<bar> \<le> \<bar>b + c\<bar>" using assms by simp
  then have "a\<^sup>2 \<le> (b + c)\<^sup>2" by (simp add: abs_le_square_iff)
  then have l: "- (2 * b * c) \<le> b * b + c * c - a * a"
    by (simp add: power2_eq_square algebra_simps)
  have "(b * b + c * c - a * a) / (2 * b * c) \<le> 1"
    using u d by (simp add: divide_le_eq)
  moreover have "- 1 \<le> (b * b + c * c - a * a) / (2 * b * c)"
    using l d by (simp add: le_divide_eq)
  moreover have "2 * b * c \<noteq> 0" using assms(1,2) by simp
  ultimately show ?thesis
    unfolding cosineLaw_def fdiv_def acosf_def by simp
qed

lemma stretched_lengths:
  fixes a b c :: real
  assumes "0 \<le> a" "0 \<le> b" "0 < a + b" "a + b < c"
  defines "r \<equiv> b / (b + a)"
  defines "a' \<equiv> a + ((1 - r) * (c - a - b) + 0.1)"
  defines "b' \<equiv> b + (r * (c - a - b) + 0.1)"
  shows "0 < b'" "0 \<le> a'" "\<bar>c - b'\<bar> \<le> \<bar>a'\<bar>" "\<bar>a'\<bar> \<le> b' + c"
proof -
  have "0 < b + a" using assms(3) by linarith
  then have s: "b + a \<noteq> 0" "0 < b + a" by simp_all
  have c: "0 < c" using assms by linarith
  have r: "0 \<le> r" "r \<le> 1"
    using assms(1,2) s by (simp_all add: r_def divide_le_eq)
  have b': "b' = r * c + 1 / 10"
  proof -
    have "b = r * (b + a)" using s by (simp add: r_def)
    then have "b + r * (c - a - b) = r * c" by (simp add: algebra_simps)
    then show ?thesis by (simp add: b'_def)
  qed
  have a': "a' = (1 - r) * c + 1 / 10"
  proof -
    have "a = (1 - r) * (b + a)" using s by (simp add: r_def field_simps)
    then have "a + (1 - r) * (c - a - b) = (1 - r) * c" by (simp add: algebra_simps)
    then show ?thesis by (simp add: a'_def)
  qed
  have rc: "0 \<le> r * c" "0 \<le> (1 - r) * c" using r c by simp_all
  show "0 < b'" using rc b' by linarith
  show "0 \<le> a'" using rc a' by linarith
  have 1: "c - b' = (1 - r) * c - 1 / 10" by (simp add: b' algebra_simps)
  have 2: "b' + c - a' = 2 * (r * c)" by (simp add: a' b' algebra_simps)
  have 3: "a' + b' = c + 2 / 10" by (simp add: a' b' algebra_simps)
  show "\<bar>c - b'\<bar> \<le> \<bar>a'\<bar>" using 1 a' rc by linarith
  show "\<bar>a'\<bar> \<le> b' + c" using 2 rc a' by linarith
qed


lemma average_solve:
  assumes "0 < m" "0 < c" "c \<le> 2 * m"
  shows "cosineLaw m c m = Some (arccos (c / (2 * m)))"
proof -
  have "\<bar>c - m\<bar> \<le> \<bar>m\<bar>" "\<bar>m\<bar> \<le> m + c"
    using assms by linarith+
  then have "cosineLaw m c m = Some (arccos ((m * m + c * c - m * m) / (2 * m * c)))"
    using assms(1,2) by (intro cosineLaw_Some)
  moreover have "(m * m + c * c - m * m) / (2 * m * c) = c / (2 * m)"
    using assms by (simp add: field_simps)
  ultimately show ?thesis by simp
qed



lemma sqrt_25: "sqrt 25 = 5"
  by (rule real_sqrt_unique) simp_all

lemma cauchy_schwarz: "(vec3Dot a b)\<^sup>2 \<le> vec3Dot a a * vec3Dot b b"
proof -
  have "vec3Dot a a * vec3Dot b b - (vec3Dot a b)\<^sup>2 = vec3Dot (vec3Cross a b) (vec3Cross a b)"
    by (simp add: vec3Dot_def vec3Cross_def power2_eq_square algebra_simps)
  moreover have "0 \<le> vec3Dot (vec3Cross a b) (vec3Cross a b)"
    by (simp add: vec3Dot_def)
  ultimately show ?thesis by linarith
qed

lemma vec3Dot_self: "vec3Dot a a = (vec3Len a)\<^sup>2"
  by (simp add: vec3Dot_def vec3Len_def)

lemma vec3Len_vec3Norm_le: "vec3Len (vec3Norm v) \<le> 1"
proof (cases "vec3Len v = 0")
  case True
  then show ?thesis by (simp add: vec3Norm_def vec3Len_vdiv)
next
  case False
  then show ?thesis by (simp add: vec3Len_vec3Norm)
qed

lemma dot_of_norms: "\<bar>vec3Dot (vec3Norm a) (vec3Norm b)\<bar> \<le> 1"
proof -
  let ?u = "vec3Norm a" and ?w = "vec3Norm b"
  have "(vec3Len ?u)\<^sup>2 \<le> 1" "(vec3Len ?w)\<^sup>2 \<le> 1"
    using vec3Len_vec3Norm_le vec3Len_nonneg by (simp_all add: power_le_one)
  then have "(vec3Len ?u)\<^sup>2 * (vec3Len ?w)\<^sup>2 \<le> 1 * 1"
    by (intro mult_mono) simp_all
  with cauchy_schwarz [of ?u ?w] have "(vec3Dot ?u ?w)\<^sup>2 \<le> 1\<^sup>2"
    by (simp add: vec3Dot_self)
  then show ?thesis
    using abs_le_square_iff [of "vec3Dot ?u ?w" 1] by simp
qed

lemma acosf_dot_of_norms: "acosf (vec3Dot (vec3Norm a) (vec3Norm b)) \<noteq> None"
  using dot_of_norms [of a b] by (simp add: acosf_def abs_le_iff)

lemma arm_orient_total:
  assumes "scale (m_worldTransform (upper arm)) \<noteq> 0"
    "vec3Len (vsub (pos (m_worldTransform (hand arm))) (pos (m_worldTransform (forearm1 arm)))) \<noteq> 0"
    "armInPowerArmor inp \<or> (forearm2 arm \<noteq> None \<and> forearm3 arm \<noteq> None)"
  shows "\<exists>arm'. arm_orient lib inp isLeft hp elbowWorld forearmLen arm = Inr arm'"
  using assms acosf_dot_of_norms
  unfolding arm_orient_def Let_def
  by (auto split: option.splits prod.splits)

lemma arm_firstAngle_stretched:
  assumes "0 \<le> u" "0 \<le> f" "0 < u + f" "u + f < h"
  shows "arm_firstAngle u f h \<noteq> None"
proof -
  let ?r = "f / (f + u)"
  let ?u' = "u + ((1 - ?r) * (h - u - f) + 0.1)"
  let ?f' = "f + (?r * (h - u - f) + 0.1)"
  note s = stretched_lengths [OF assms]
  have h: "0 < h" using assms by linarith
  have "cosineLaw ?f' h ?u' \<noteq> None"
    using cosineLaw_Some [OF s(1) h s(3) s(4)] by simp
  moreover have "f + u \<noteq> 0" using assms(3) by simp
  ultimately show ?thesis
    using assms(4) by (simp add: arm_firstAngle_def arm_stretch_def fdiv_def Let_def)
qed

lemma arm_secondAngle_solves:
  assumes "0 < (oU + oF) * adj" "0 < h" "h \<le> (oU + oF) * adj"
  shows "arm_secondAngle oU oF adj h = Some (arccos (h / ((oU + oF) * adj)), (oU + oF) / 2 * adj)"
proof -
  have m: "0 < (oU + oF) / 2 * adj" "h \<le> 2 * ((oU + oF) / 2 * adj)" using assms by simp_all
  have e: "2 * ((oU + oF) / 2 * adj) = (oU + oF) * adj" by simp
  show ?thesis
    unfolding arm_secondAngle_def Let_def average_solve [OF m(1) assms(2) m(2)] e by simp
qed

lemma arm_lengths_past_guard:
  fixes oU oF adj h :: real
  assumes "0 \<le> oU" "0 \<le> oF" "0 < h" "\<not> h > (oU * adj + oF * adj) * 2.25"
  shows "0 < (oU + oF) * adj" "0 \<le> oU * adj" "0 \<le> oF * adj"
proof -
  have "(oU * adj + oF * adj) * 2.25 = (oU + oF) * adj * 2.25" by (simp add: algebra_simps)
  with assms(3,4) have "0 < (oU + oF) * adj * 2.25" by linarith
  then show p: "0 < (oU + oF) * adj" by (simp add: mult.commute)
  have "0 \<le> oU + oF" using assms(1,2) by simp
  with p have "0 < adj" by (simp add: zero_less_mult_iff)
  then show "0 \<le> oU * adj" "0 \<le> oF * adj" using assms(1,2) by simp_all
qed

lemma arm_second_after_first:
  fixes oU oF adj h :: real
  assumes "0 \<le> oU" "0 \<le> oF" "0 < h" "\<not> h > (oU * adj + oF * adj) * 2.25"
    "arm_firstAngle (oU * adj) (oF * adj) h = None"
  shows "arm_secondAngle oU oF adj h = Some (arccos (h / ((oU + oF) * adj)), (oU + oF) / 2 * adj)
    \<and> 0 < h / ((oU + oF) * adj) \<and> h / ((oU + oF) * adj) \<le> 1"
proof -
  note p = arm_lengths_past_guard [OF assms(1-4)]
  have sum: "oU * adj + oF * adj = (oU + oF) * adj" by (simp add: algebra_simps)
  have pos: "0 < oU * adj + oF * adj" using p(1) sum by simp
  have "\<not> oU * adj + oF * adj < h"
    using arm_firstAngle_stretched [OF p(2) p(3) pos] assms(5) by blast
  then have le: "h \<le> (oU + oF) * adj" using sum by simp
  show ?thesis
    using arm_secondAngle_solves [OF p(1) assms(3) le] p(1) assms(3) le by simp
qed

lemma arm_wristAngle_total:
  assumes "0 \<le> oU" "0 \<le> oF" "0 < h" "\<not> h > (oU * adj + oF * adj) * 2.25"
  shows "arm_wristAngle oU oF adj h \<noteq> None"
proof (cases "arm_firstAngle (oU * adj) (oF * adj) h")
  case (Some r)
  then show ?thesis by (simp add: arm_wristAngle_def)
next
  case None
  from arm_second_after_first [OF assms None] None show ?thesis
    by (simp add: arm_wristAngle_def)
qed


lemma vec3Len_y: "vec3Len (NiPoint3 0 b 0) = \<bar>b\<bar>"
  by (simp add: vec3Len_def)










lemma arm_solve_prevAngle:
  assumes "arm_solve lib inp isLeft hp oU oF h arm st = Inr st'"
  shows "prevAngle st' =
           (prevAngle st)((if isLeft then 0 else 1) :=
              prevAngle st (if isLeft then 0 else 1)
                + (arm_rawTwist (handRot inp) - prevAngle st (if isLeft then 0 else 1)) * 0.25)"
  using assms
  unfolding arm_solve_def arm_smoothTwist_def Let_def
  by (auto split: option.splits sum.splits prod.splits if_splits)

lemma setArms_prevAngle:
  assumes "setArms lib inp isLeft st = Inr st'" "\<not> setArms_returns_early lib inp isLeft st"
  shows "prevAngle st' =
           (prevAngle st)((if isLeft then 0 else 1) :=
              prevAngle st (if isLeft then 0 else 1)
                + (arm_rawTwist (handRot inp) - prevAngle st (if isLeft then 0 else 1)) * 0.25)"
  using assms
  unfolding setArms_def setArms_returns_early_def Let_def
  by (auto split: option.splits sum.splits prod.splits if_splits dest!: arm_solve_prevAngle)

lemma mat_mul_id [simp]: "mat_mul mat_id m = m" "mat_mul m mat_id = m"
  by (cases m; cases "row0 m"; cases "row1 m"; cases "row2 m";
      simp add: mat_mul_def mat_id_def Transpose_def mat_vec_def vec3Dot_def Let_def)+

lemma mat_vec_id [simp]: "mat_vec mat_id v = v" "mat_vec (Transpose mat_id) v = v"
  by (cases v; simp add: mat_id_def Transpose_def mat_vec_def vec3Dot_def)+

lemma updateDown_locals:
  "m_localTransform (shoulder (updateDown a)) = m_localTransform (shoulder a)"
  "m_localTransform (upper (updateDown a)) = m_localTransform (upper a)"
  "m_localTransform (forearm1 (updateDown a)) = m_localTransform (forearm1 a)"
  "map_option m_localTransform (forearm2 (updateDown a)) = map_option m_localTransform (forearm2 a)"
  "map_option m_localTransform (forearm3 (updateDown a)) = map_option m_localTransform (forearm3 a)"
  "m_localTransform (hand (updateDown a)) = m_localTransform (hand a)"
  by (simp_all add: updateDown_def Let_def update_node_def option.map_comp comp_def)

lemma shoulderIK_locals:
  assumes "shoulderIK lib inp hp a = Inr a'"
  shows "m_localTransform (upper a') = m_localTransform (upper a)"
    "m_localTransform (forearm1 a') = m_localTransform (forearm1 a)"
    "map_option m_localTransform (forearm2 a') = map_option m_localTransform (forearm2 a)"
    "map_option m_localTransform (forearm3 a') = map_option m_localTransform (forearm3 a)"
    "m_localTransform (hand a') = m_localTransform (hand a)"
    "pos (m_localTransform (shoulder a')) = pos (m_localTransform (shoulder a))"
    "scale (m_localTransform (shoulder a')) = scale (m_localTransform (shoulder a))"
  using assms
  by (auto simp: shoulderIK_def Let_def updateDown_locals set_local_rot_def split: if_splits)

lemma setArms_early_result:
  assumes "setArms_returns_early lib inp isLeft st"
  shows "setArms lib inp isLeft st = Inr st
    \<or> (\<exists>hp a'. shoulderIK lib inp hp (arm_of isLeft st) = Inr a'
          \<and> setArms lib inp isLeft st = Inr (if isLeft then st\<lparr>leftArm := a'\<rparr> else st\<lparr>rightArm := a'\<rparr>))"
  using assms
  unfolding setArms_def setArms_returns_early_def arm_of_def Let_def
  by (auto split: option.splits sum.splits prod.splits if_splits)

lemma arm_guard_nonfinite:
  assumes "isnan (fx (handPos inp)) \<or> isnan (fy (handPos inp)) \<or> isnan (fz (handPos inp))
    \<or> isinf (fx (handPos inp)) \<or> isinf (fy (handPos inp)) \<or> isinf (fz (handPos inp))"
  shows "arm_guard inp a = None"
  using assms by (auto simp: arm_guard_def Let_def)

lemma arm_guard_far:
  assumes "handPos inp = FlPoint3 (Finite a) (Finite b) (Finite c)"
    "vec3Len (vsub (pos (m_worldTransform (upper arm))) (NiPoint3 a b c)) > 200"
  shows "arm_guard inp arm = None"
  using assms by (simp add: arm_guard_def Let_def isnan_def isinf_def)

lemma setArms_guarded: "arm_guard inp (arm_of isLeft st) = None \<Longrightarrow> setArms lib inp isLeft st = Inr st"
  by (simp add: setArms_def arm_of_def Let_def)

lemma setArms_early_keeps:
  assumes "setArms_returns_early lib inp isLeft st"
  shows "\<exists>st'. setArms lib inp isLeft st = Inr st'
      \<and> prevAngle st' = prevAngle st
      \<and> arm_of (\<not> isLeft) st' = arm_of (\<not> isLeft) st
      \<and> m_localTransform (upper (arm_of isLeft st')) = m_localTransform (upper (arm_of isLeft st))
      \<and> m_localTransform (forearm1 (arm_of isLeft st')) = m_localTransform (forearm1 (arm_of isLeft st))
      \<and> map_option m_localTransform (forearm2 (arm_of isLeft st'))
          = map_option m_localTransform (forearm2 (arm_of isLeft st))
      \<and> map_option m_localTransform (forearm3 (arm_of isLeft st'))
          = map_option m_localTransform (forearm3 (arm_of isLeft st))
      \<and> m_localTransform (hand (arm_of isLeft st')) = m_localTransform (hand (arm_of isLeft st))
      \<and> pos (m_localTransform (shoulder (arm_of isLeft st')))
          = pos (m_localTransform (shoulder (arm_of isLeft st)))
      \<and> scale (m_localTransform (shoulder (arm_of isLeft st')))
          = scale (m_localTransform (shoulder (arm_of isLeft st)))"
proof -
  from setArms_early_result [OF assms] show ?thesis
  proof
    assume "setArms lib inp isLeft st = Inr st"
    then show ?thesis by simp
  next
    assume "\<exists>hp a'. shoulderIK lib inp hp (arm_of isLeft st) = Inr a'
          \<and> setArms lib inp isLeft st = Inr (if isLeft then st\<lparr>leftArm := a'\<rparr> else st\<lparr>rightArm := a'\<rparr>)"
    then obtain hp a' where s: "shoulderIK lib inp hp (arm_of isLeft st) = Inr a'"
      and r: "setArms lib inp isLeft st = Inr (if isLeft then st\<lparr>leftArm := a'\<rparr> else st\<lparr>rightArm := a'\<rparr>)"
      by blast
    show ?thesis
      unfolding r using shoulderIK_locals [OF s] by (simp add: arm_of_def)
  qed
qed

lemma example_arm_fields:
  "pos (m_worldTransform (upper example_arm)) = NiPoint3 3 0 0"
  "pos (m_worldTransform (shoulder example_arm)) = NiPoint3 0 0 0"
  "rot (m_worldTransform (shoulder example_arm)) = mat_id"
  "scale (m_worldTransform (shoulder example_arm)) = 1"
  "rot (m_localTransform (shoulder example_arm)) = mat_id"
  by (simp_all add: example_arm_def example_node_def)

lemma example_far_guard: "arm_guard example_arm_frame_far example_arm = Some (NiPoint3 3 100 0)"
  by (simp add: arm_guard_def example_arm_frame_far_def example_arm_frame_def isnan_def isinf_def
      example_arm_fields vsub_def vec3Len_y Let_def)

lemma example_near_guard: "arm_guard example_arm_frame example_arm = Some (NiPoint3 3 20 0)"
  by (simp add: arm_guard_def example_arm_frame_def isnan_def isinf_def
      example_arm_fields vsub_def vec3Len_y Let_def)

lemma example_rotation: "rotation_between (NiPoint3 3 4 0) (NiPoint3 1 0 0) = example_shrug"
proof -
  have a: "vec3Norm (NiPoint3 1 0 0) = NiPoint3 1 0 0"
    by (simp add: vec3Norm_def vec3Len_x vdiv_def)
  have b: "vec3Norm (NiPoint3 3 4 0) = NiPoint3 (3 / 5) (4 / 5) 0"
    by (simp add: vec3Norm_def vec3Len_def vdiv_def sqrt_25)
  show ?thesis
    unfolding rotation_between_def a b Let_def
    by (simp add: vec3Cross_def vec3Dot_def example_shrug_def)
qed

lemma example_far_shoulder:
  "shoulderIK example_arm_lib example_arm_frame_far (NiPoint3 3 100 0) example_arm =
     Inr (updateDown (example_arm\<lparr>shoulder := set_local_rot (shoulder example_arm) example_shrug\<rparr>))"
proof -
  have n: "vec3Norm (NiPoint3 0 100 0) = NiPoint3 0 1 0"
    by (simp add: vec3Norm_def vec3Len_y vdiv_def)
  have l: "armLength example_arm_frame_far = 50"
    "rotateVectorVec example_arm_lib = rotation_between"
    by (simp_all add: example_arm_frame_far_def example_arm_frame_def example_arm_lib_def)
  show ?thesis
    unfolding shoulderIK_def Let_def example_arm_fields l
    by (simp add: vsub_def vadd_def vscale_def vdiv_def vec3Len_y n clamp_def
        multiply43Left_def example_rotation)
qed

lemma example_far_upper:
  "pos (m_worldTransform (upper (updateDown
      (example_arm\<lparr>shoulder := set_local_rot (shoulder example_arm) example_shrug\<rparr>)))) =
     NiPoint3 (9 / 5) (12 / 5) 0"
  by (simp add: updateDown_def Let_def update_node_def compose_world_def set_local_rot_def
      example_arm_def example_node_def example_shrug_def mat_vec_def vec3Dot_def vscale_def vadd_def
      mat_mul_def Transpose_def mat_id_def)

lemma example_lens:
  "arm_originalLens False (updateDown (example_arm\<lparr>shoulder := set_local_rot (shoulder example_arm) r\<rparr>))
     = Inr (10, 6)"
  by (simp add: arm_originalLens_def updateDown_def Let_def update_node_def
      example_arm_def example_node_def vec3Len_x)

lemma sqrt_gt_49: "49 < sqrt ((6 / 5) * (6 / 5) + (488 / 5) * (488 / 5))"
  by (rule real_less_rsqrt) (simp add: power2_eq_square)

lemma example_far_hsLen:
  "(10 * (50 / 36.74) + 6 * (50 / 36.74)) * 2.25
     < max (vec3Len (vsub (NiPoint3 (9 / 5) (12 / 5) 0) (NiPoint3 3 100 0))) 0.1"
proof -
  have "vec3Len (vsub (NiPoint3 (9 / 5) (12 / 5) 0) (NiPoint3 3 100 0))
      = sqrt ((6 / 5) * (6 / 5) + (488 / 5) * (488 / 5))"
    by (simp add: vsub_def vec3Len_def)
  moreover have "(10 * (50 / 36.74) + 6 * (50 / 36.74)) * 2.25 < (49::real)" by simp
  ultimately show ?thesis using sqrt_gt_49 by simp
qed

lemma setArms_at_second_guard:
  assumes "firstPersonSkeleton inp" "arm_guard inp (arm_of isLeft st) = Some hp"
    "shoulderIK lib inp hp (arm_of isLeft st) = Inr a'"
    "arm_originalLens (armInPowerArmor inp) a' = Inr (oU, oF)"
    "(oU * (armLength inp / 36.74) + oF * (armLength inp / 36.74)) * 2.25
       < max (vec3Len (vsub (pos (m_worldTransform (upper a'))) hp)) 0.1"
  shows "setArms lib inp isLeft st = Inr (if isLeft then st\<lparr>leftArm := a'\<rparr> else st\<lparr>rightArm := a'\<rparr>)"
    and "setArms_returns_early lib inp isLeft st"
  using assms by (simp_all add: setArms_def setArms_returns_early_def arm_of_def Let_def)

lemma example_far_facts:
  "firstPersonSkeleton example_arm_frame_far"
  "arm_guard example_arm_frame_far (arm_of False example_arms) = Some (NiPoint3 3 100 0)"
  "shoulderIK example_arm_lib example_arm_frame_far (NiPoint3 3 100 0) (arm_of False example_arms) =
     Inr (updateDown (example_arm\<lparr>shoulder := set_local_rot (shoulder example_arm) example_shrug\<rparr>))"
  "arm_originalLens (armInPowerArmor example_arm_frame_far)
     (updateDown (example_arm\<lparr>shoulder := set_local_rot (shoulder example_arm) example_shrug\<rparr>))
     = Inr (10, 6)"
  "(10 * (armLength example_arm_frame_far / 36.74) + 6 * (armLength example_arm_frame_far / 36.74)) * 2.25
     < max (vec3Len (vsub (pos (m_worldTransform (upper (updateDown
         (example_arm\<lparr>shoulder := set_local_rot (shoulder example_arm) example_shrug\<rparr>)))))
         (NiPoint3 3 100 0))) 0.1"
proof -
  have i: "armInPowerArmor example_arm_frame_far = False" "armLength example_arm_frame_far = 50"
    "arm_of False example_arms = example_arm"
    by (simp_all add: example_arm_frame_far_def example_arm_frame_def example_arms_def arm_of_def)
  show "firstPersonSkeleton example_arm_frame_far"
    by (simp add: example_arm_frame_far_def example_arm_frame_def)
  show "arm_guard example_arm_frame_far (arm_of False example_arms) = Some (NiPoint3 3 100 0)"
    unfolding i by (rule example_far_guard)
  show "shoulderIK example_arm_lib example_arm_frame_far (NiPoint3 3 100 0) (arm_of False example_arms) =
     Inr (updateDown (example_arm\<lparr>shoulder := set_local_rot (shoulder example_arm) example_shrug\<rparr>))"
    unfolding i by (rule example_far_shoulder)
  show "arm_originalLens (armInPowerArmor example_arm_frame_far)
     (updateDown (example_arm\<lparr>shoulder := set_local_rot (shoulder example_arm) example_shrug\<rparr>))
     = Inr (10, 6)"
    unfolding i by (rule example_lens)
  show "(10 * (armLength example_arm_frame_far / 36.74) + 6 * (armLength example_arm_frame_far / 36.74)) * 2.25
     < max (vec3Len (vsub (pos (m_worldTransform (upper (updateDown
         (example_arm\<lparr>shoulder := set_local_rot (shoulder example_arm) example_shrug\<rparr>)))))
         (NiPoint3 3 100 0))) 0.1"
    unfolding i example_far_upper by (rule example_far_hsLen)
qed

lemma example_far_result:
  "setArms example_arm_lib example_arm_frame_far False example_arms =
     Inr (example_arms\<lparr>rightArm := updateDown
            (example_arm\<lparr>shoulder := set_local_rot (shoulder example_arm) example_shrug\<rparr>)\<rparr>)"
  using setArms_at_second_guard(1) [OF example_far_facts] by simp

lemma example_far_early:
  "setArms_returns_early example_arm_lib example_arm_frame_far False example_arms"
  by (rule setArms_at_second_guard(2) [OF example_far_facts])

lemma setArms_past_guards:
  assumes "firstPersonSkeleton inp" "arm_guard inp (arm_of isLeft st) = Some hp"
    "shoulderIK lib inp hp (arm_of isLeft st) = Inr a'"
    "arm_originalLens (armInPowerArmor inp) a' = Inr (oU, oF)"
    "\<not> (oU * (armLength inp / 36.74) + oF * (armLength inp / 36.74)) * 2.25
       < max (vec3Len (vsub (pos (m_worldTransform (upper a'))) hp)) 0.1"
  shows "setArms lib inp isLeft st =
           arm_solve lib inp isLeft hp oU oF (max (vec3Len (vsub (pos (m_worldTransform (upper a'))) hp)) 0.1)
             a' (if isLeft then st\<lparr>leftArm := a'\<rparr> else st\<lparr>rightArm := a'\<rparr>)"
    and "\<not> setArms_returns_early lib inp isLeft st"
  using assms by (simp_all add: setArms_def setArms_returns_early_def arm_of_def Let_def)

lemma arm_solve_total:
  assumes "0 \<le> oU" "0 \<le> oF" "0 < h"
    "\<not> h > (oU * (armLength inp / 36.74) + oF * (armLength inp / 36.74)) * 2.25"
    "scale (m_worldTransform (upper arm)) \<noteq> 0"
    "vec3Len (vsub (pos (m_worldTransform (hand arm))) (pos (m_worldTransform (forearm1 arm)))) \<noteq> 0"
    "armInPowerArmor inp \<or> (forearm2 arm \<noteq> None \<and> forearm3 arm \<noteq> None)"
  shows "\<exists>st'. arm_solve lib inp isLeft hp oU oF h arm st = Inr st'"
proof -
  from arm_wristAngle_total [OF assms(1-4)]
  obtain w f where w: "arm_wristAngle oU oF (armLength inp / 36.74) h = Some (w, f)"
    by fastforce
  let ?e = "vadd (vadd hp (vscale (vec3Norm (vsub (pos (m_worldTransform (upper arm))) hp)) (cos w * f)))
      (vscale (arm_yDir lib inp isLeft arm hp (vsub (pos (m_worldTransform (upper arm))) hp)
         (fst (arm_smoothTwist isLeft (arm_rawTwist (handRot inp)) st))) (sin w * f))"
  from arm_orient_total [OF assms(5-7)]
  obtain arm' where "arm_orient lib inp isLeft hp ?e f arm = Inr arm'" by blast
  then show ?thesis
    using w unfolding arm_solve_def Let_def
    by (simp add: split_beta)
qed

lemma example_near_facts:
  "firstPersonSkeleton example_arm_frame"
  "arm_guard example_arm_frame (arm_of False example_arms) = Some (NiPoint3 3 20 0)"
  "shoulderIK example_matrix_lib example_arm_frame (NiPoint3 3 20 0) (arm_of False example_arms) =
     Inr (updateDown (example_arm\<lparr>shoulder := set_local_rot (shoulder example_arm) mat_id\<rparr>))"
  "arm_originalLens (armInPowerArmor example_arm_frame)
     (updateDown (example_arm\<lparr>shoulder := set_local_rot (shoulder example_arm) mat_id\<rparr>))
     = Inr (10, 6)"
  "\<not> (10 * (armLength example_arm_frame / 36.74) + 6 * (armLength example_arm_frame / 36.74)) * 2.25
     < max (vec3Len (vsub (pos (m_worldTransform (upper (updateDown
         (example_arm\<lparr>shoulder := set_local_rot (shoulder example_arm) mat_id\<rparr>)))))
         (NiPoint3 3 20 0))) 0.1"
proof -
  have i: "armInPowerArmor example_arm_frame = False" "armLength example_arm_frame = 50"
    "arm_of False example_arms = example_arm"
    by (simp_all add: example_arm_frame_def example_arms_def arm_of_def)
  have u: "pos (m_worldTransform (upper (updateDown
      (example_arm\<lparr>shoulder := set_local_rot (shoulder example_arm) mat_id\<rparr>)))) = NiPoint3 3 0 0"
    by (simp add: updateDown_def Let_def update_node_def compose_world_def set_local_rot_def
        example_arm_def example_node_def vscale_def vadd_def)
  show "firstPersonSkeleton example_arm_frame"
    by (simp add: example_arm_frame_def)
  show "arm_guard example_arm_frame (arm_of False example_arms) = Some (NiPoint3 3 20 0)"
    unfolding i by (rule example_near_guard)
  show "shoulderIK example_matrix_lib example_arm_frame (NiPoint3 3 20 0) (arm_of False example_arms) =
     Inr (updateDown (example_arm\<lparr>shoulder := set_local_rot (shoulder example_arm) mat_id\<rparr>))"
    unfolding i shoulderIK_def Let_def example_arm_fields
    by (simp add: i example_matrix_lib_def multiply43Left_def)
  show "arm_originalLens (armInPowerArmor example_arm_frame)
     (updateDown (example_arm\<lparr>shoulder := set_local_rot (shoulder example_arm) mat_id\<rparr>))
     = Inr (10, 6)"
    unfolding i by (rule example_lens)
  show "\<not> (10 * (armLength example_arm_frame / 36.74) + 6 * (armLength example_arm_frame / 36.74)) * 2.25
     < max (vec3Len (vsub (pos (m_worldTransform (upper (updateDown
         (example_arm\<lparr>shoulder := set_local_rot (shoulder example_arm) mat_id\<rparr>)))))
         (NiPoint3 3 20 0))) 0.1"
    unfolding i u by (simp add: vsub_def vec3Len_y)
qed

lemma example_near_solves:
  "\<exists>st'. setArms example_matrix_lib example_arm_frame False example_arms = Inr st'"
proof -
  let ?a = "updateDown (example_arm\<lparr>shoulder := set_local_rot (shoulder example_arm) mat_id\<rparr>)"
  let ?h = "max (vec3Len (vsub (pos (m_worldTransform (upper ?a))) (NiPoint3 3 20 0))) 0.1"
  have 1: "(0::real) \<le> 10" "(0::real) \<le> 6" "0 < ?h" by simp_all
  have 2: "\<not> ?h > (10 * (armLength example_arm_frame / 36.74) + 6 * (armLength example_arm_frame / 36.74)) * 2.25"
    using example_near_facts(5) by simp
  have 3: "scale (m_worldTransform (upper ?a)) \<noteq> 0"
    "vec3Len (vsub (pos (m_worldTransform (hand ?a))) (pos (m_worldTransform (forearm1 ?a)))) \<noteq> 0"
    "armInPowerArmor example_arm_frame \<or> (forearm2 ?a \<noteq> None \<and> forearm3 ?a \<noteq> None)"
    by (simp_all add: updateDown_def Let_def update_node_def compose_world_def set_local_rot_def
        example_arm_def example_node_def vscale_def vadd_def vsub_def vec3Len_x)
  from arm_solve_total [OF 1 2 3] show ?thesis
    unfolding setArms_past_guards(1) [OF example_near_facts] by blast
qed

text \<open>
  Claim C5. On a call of \<^verbatim>\<open>setArms\<close> that solves the arm, with \<open>T\<close> the blend of
  the raw twist angles of this frame and \<open>A\<close> the angle stored for the same side, the
  twist angle the call goes on with is \<open>A + 0.25 * (T - A)\<close>, the same number is stored
  for that side, and the angle stored for the other side is left as it was.
\<close>

theorem twist_smoothing:
  assumes "setArms lib inp isLeft st = Inr st'" "\<not> setArms_returns_early lib inp isLeft st"
  shows "fst (arm_smoothTwist isLeft (arm_rawTwist (handRot inp)) st) =
           prevAngle st (if isLeft then 0 else 1)
             + 0.25 * (arm_rawTwist (handRot inp) - prevAngle st (if isLeft then 0 else 1))
       \<and> prevAngle st' (if isLeft then 0 else 1) =
           prevAngle st (if isLeft then 0 else 1)
             + 0.25 * (arm_rawTwist (handRot inp) - prevAngle st (if isLeft then 0 else 1))
       \<and> prevAngle st' (if isLeft then 1 else 0) = prevAngle st (if isLeft then 1 else 0)"
  using setArms_prevAngle [OF assms]
  by (simp add: arm_smoothTwist_def Let_def)

theorem twist_smoothing_witness:
  "\<not> setArms_returns_early example_matrix_lib example_arm_frame False example_arms
   \<and> (\<exists>st'. setArms example_matrix_lib example_arm_frame False example_arms = Inr st'
        \<and> prevAngle st' 1 =
            prevAngle example_arms 1
              + 0.25 * (arm_rawTwist (handRot example_arm_frame) - prevAngle example_arms 1)
        \<and> prevAngle st' 0 = prevAngle example_arms 0)"
proof -
  have e: "\<not> setArms_returns_early example_matrix_lib example_arm_frame False example_arms"
    by (rule setArms_past_guards(2) [OF example_near_facts])
  from example_near_solves obtain st'
    where s: "setArms example_matrix_lib example_arm_frame False example_arms = Inr st'" by blast
  show ?thesis
    using twist_smoothing [OF s e] s e by auto
qed

text \<open>
  Claim C3, as stated, fails for the third condition: with the hand 100 units from
  the upper-arm node and an upper arm and forearm of 16 units together, \<^verbatim>\<open>setArms\<close>
  returns at the distance guard of line 1139, after the shoulder adjustment of lines
  1090 to 1106 has given the clavicle a new local rotation.
\<close>

theorem far_hand_counterexample:
  "handPos example_arm_frame_far = FlPoint3 (Finite 3) (Finite 100) (Finite 0)
   \<and> vec3Len (vsub (pos (m_worldTransform (upper (arm_of False example_arms)))) (NiPoint3 3 100 0)) = 100
   \<and> 2.25 * (vec3Len (pos (m_localTransform (forearm1 example_arm)))
              + (vec3Len (pos (m_localTransform (hand example_arm))) + 2 + 2)) < (100::real)
   \<and> setArms example_arm_lib example_arm_frame_far False example_arms =
       Inr (example_arms\<lparr>rightArm := updateDown
              (example_arm\<lparr>shoulder := set_local_rot (shoulder example_arm) example_shrug\<rparr>)\<rparr>)
   \<and> rot (m_localTransform (shoulder (arm_of False example_arms))) = mat_id
   \<and> rot (m_localTransform (shoulder (arm_of False (example_arms\<lparr>rightArm := updateDown
              (example_arm\<lparr>shoulder := set_local_rot (shoulder example_arm) example_shrug\<rparr>)\<rparr>))))
       = example_shrug
   \<and> example_shrug \<noteq> mat_id
   \<and> setArms example_arm_lib example_arm_frame_far False example_arms \<noteq> Inr example_arms"
proof -
  have a: "rot (m_localTransform (shoulder (arm_of False (example_arms\<lparr>rightArm := updateDown
              (example_arm\<lparr>shoulder := set_local_rot (shoulder example_arm) example_shrug\<rparr>)\<rparr>))))
       = example_shrug"
    by (simp add: arm_of_def updateDown_locals set_local_rot_def)
  have b: "rot (m_localTransform (shoulder (arm_of False example_arms))) = mat_id"
    by (simp add: arm_of_def example_arms_def example_arm_fields)
  have c: "example_shrug \<noteq> mat_id"
    by (simp add: example_shrug_def mat_id_def)
  have d: "setArms example_arm_lib example_arm_frame_far False example_arms \<noteq> Inr example_arms"
  proof
    assume "setArms example_arm_lib example_arm_frame_far False example_arms = Inr example_arms"
    then have "example_arms\<lparr>rightArm := updateDown
              (example_arm\<lparr>shoulder := set_local_rot (shoulder example_arm) example_shrug\<rparr>)\<rparr> = example_arms"
      unfolding example_far_result by simp
    with a b c show False by simp
  qed
  have e: "vec3Len (vsub (pos (m_worldTransform (upper (arm_of False example_arms)))) (NiPoint3 3 100 0)) = 100"
    by (simp add: arm_of_def example_arms_def example_arm_fields vsub_def vec3Len_y)
  have f: "2.25 * (vec3Len (pos (m_localTransform (forearm1 example_arm)))
              + (vec3Len (pos (m_localTransform (hand example_arm))) + 2 + 2)) < (100::real)"
    by (simp add: example_arm_def example_node_def vec3Len_x)
  have g: "handPos example_arm_frame_far = FlPoint3 (Finite 3) (Finite 100) (Finite 0)"
    by (simp add: example_arm_frame_far_def)
  show ?thesis using a b c d e f g example_far_result by blast
qed

text \<open>
  Claim C3, amended. \<^verbatim>\<open>setArms\<close> leaves every bone of the arm and the stored twist
  angles as they were when a component of the hand position is NaN or an infinity and
  when the hand lies farther than 200 units from the upper-arm node. Whenever the call
  returns at a guard, also at the distance guard (the hand-to-shoulder distance, at
  least 0.1 and measured after the shoulder adjustment, above 2.25 times the sum of
  the two bind lengths scaled by \<^verbatim>\<open>armLength / 36.74\<close>), it stores finite numbers
  and leaves the local transforms of the upper arm, of the forearm segments and of the
  hand, the local position and scale of the clavicle, the other arm and the stored
  twist angles as they were.
\<close>

theorem setArms_abort:
  "(isnan (fx (handPos inp)) \<or> isnan (fy (handPos inp)) \<or> isnan (fz (handPos inp))
      \<or> isinf (fx (handPos inp)) \<or> isinf (fy (handPos inp)) \<or> isinf (fz (handPos inp)) \<longrightarrow>
      setArms lib inp isLeft st = Inr st)
   \<and> (handPos inp = FlPoint3 (Finite a) (Finite b) (Finite c)
       \<and> vec3Len (vsub (pos (m_worldTransform (upper (arm_of isLeft st)))) (NiPoint3 a b c)) > 200 \<longrightarrow>
      setArms lib inp isLeft st = Inr st)
   \<and> (setArms_returns_early lib inp isLeft st \<longrightarrow>
      (\<exists>st'. setArms lib inp isLeft st = Inr st'
         \<and> prevAngle st' = prevAngle st
         \<and> arm_of (\<not> isLeft) st' = arm_of (\<not> isLeft) st
         \<and> m_localTransform (upper (arm_of isLeft st')) = m_localTransform (upper (arm_of isLeft st))
         \<and> m_localTransform (forearm1 (arm_of isLeft st')) = m_localTransform (forearm1 (arm_of isLeft st))
         \<and> map_option m_localTransform (forearm2 (arm_of isLeft st'))
             = map_option m_localTransform (forearm2 (arm_of isLeft st))
         \<and> map_option m_localTransform (forearm3 (arm_of isLeft st'))
             = map_option m_localTransform (forearm3 (arm_of isLeft st))
         \<and> m_localTransform (hand (arm_of isLeft st')) = m_localTransform (hand (arm_of isLeft st))
         \<and> pos (m_localTransform (shoulder (arm_of isLeft st')))
             = pos (m_localTransform (shoulder (arm_of isLeft st)))
         \<and> scale (m_localTransform (shoulder (arm_of isLeft st')))
             = scale (m_localTransform (shoulder (arm_of isLeft st)))))"
proof -
  have n: "setArms lib inp isLeft st = Inr st"
    if "isnan (fx (handPos inp)) \<or> isnan (fy (handPos inp)) \<or> isnan (fz (handPos inp))
      \<or> isinf (fx (handPos inp)) \<or> isinf (fy (handPos inp)) \<or> isinf (fz (handPos inp))"
    using setArms_guarded [OF arm_guard_nonfinite [OF that]] .
  have f: "setArms lib inp isLeft st = Inr st"
    if "handPos inp = FlPoint3 (Finite a) (Finite b) (Finite c)"
      and "vec3Len (vsub (pos (m_worldTransform (upper (arm_of isLeft st)))) (NiPoint3 a b c)) > 200"
    using setArms_guarded [OF arm_guard_far [OF that]] .
  show ?thesis
    using n f setArms_early_keeps [of lib inp isLeft st] by blast
qed

theorem setArms_abort_witness:
  "isnan (fz (handPos example_arm_frame_nan))
   \<and> setArms example_arm_lib example_arm_frame_nan False example_arms = Inr example_arms
   \<and> handPos (example_arm_frame\<lparr>handPos := FlPoint3 (Finite 3) (Finite 300) (Finite 0)\<rparr>)
       = FlPoint3 (Finite 3) (Finite 300) (Finite 0)
   \<and> vec3Len (vsub (pos (m_worldTransform (upper (arm_of False example_arms)))) (NiPoint3 3 300 0)) > 200
   \<and> setArms example_arm_lib (example_arm_frame\<lparr>handPos := FlPoint3 (Finite 3) (Finite 300) (Finite 0)\<rparr>)
        False example_arms = Inr example_arms
   \<and> setArms_returns_early example_arm_lib example_arm_frame_far False example_arms
   \<and> (\<exists>st'. setArms example_arm_lib example_arm_frame_far False example_arms = Inr st'
         \<and> prevAngle st' = prevAngle example_arms
         \<and> m_localTransform (upper (arm_of False st')) = m_localTransform (upper (arm_of False example_arms))
         \<and> m_localTransform (hand (arm_of False st')) = m_localTransform (hand (arm_of False example_arms)))"
proof -
  have n: "isnan (fz (handPos example_arm_frame_nan))"
    by (simp add: example_arm_frame_nan_def isnan_def)
  have f: "handPos (example_arm_frame\<lparr>handPos := FlPoint3 (Finite 3) (Finite 300) (Finite 0)\<rparr>)
       = FlPoint3 (Finite 3) (Finite 300) (Finite 0)"
    "vec3Len (vsub (pos (m_worldTransform (upper (arm_of False example_arms)))) (NiPoint3 3 300 0)) > 200"
    by (simp_all add: arm_of_def example_arms_def example_arm_fields vsub_def vec3Len_y)
  show ?thesis
    using setArms_abort [of example_arm_frame_nan example_arm_lib False example_arms]
      setArms_abort [of "example_arm_frame\<lparr>handPos := FlPoint3 (Finite 3) (Finite 300) (Finite 0)\<rparr>"
        example_arm_lib False example_arms 3 300 0]
      setArms_abort [of example_arm_frame_far example_arm_lib False example_arms]
      n f example_far_early
    by blast
qed

end
